theory Spec2Isabelle
  imports
    Complex_Main
    "HOL-Library.Char_ord"
    "HOL-Library.List_Lexorder"
    "HOL-Library.Product_Lexorder"
begin

unbundle bit_operations_syntax

section \<open>Python values used by fk-files.py\<close>

text \<open>
  File names, paths and messages are Python \<open>str\<close> values. A \<open>str\<close> is modelled by
  the HOL string of the bytes of its UTF-8 encoding. Concatenation, \<open>startswith\<close>,
  \<open>endswith\<close>, the substring test \<open>in\<close> and the comparison of two strings (by code
  points in Python, by bytes here: the order of \<open>HOL-Library.Char_ord\<close> and
  \<open>HOL-Library.List_Lexorder\<close>) are the same operations on the encoded strings, since
  UTF-8 keeps the boundaries and the order of the code points.

  \<open>str.lower()\<close> is not such an operation: it follows the case tables of Unicode, which
  belong to Python and not to the program, and it can change the length of a string. It
  is a parameter of the model, the field \<open>str_lower\<close> of the record \<open>sys\<close> below, and
  every theorem holds whatever that function is. \<open>ascii_lower\<close> is what \<open>str.lower()\<close>
  does on ASCII text: the letters \<open>A\<close> to \<open>Z\<close> go to \<open>a\<close> to \<open>z\<close>, every other
  character stays. The example system, whose names are ASCII, uses it.
\<close>

definition ascii_lower_char :: "char \<Rightarrow> char" where
  "ascii_lower_char c =
     (case map_of (zip ''ABCDEFGHIJKLMNOPQRSTUVWXYZ'' ''abcdefghijklmnopqrstuvwxyz'') c of
        Some d \<Rightarrow> d
      | None \<Rightarrow> c)"

definition ascii_lower :: "string \<Rightarrow> string" where
  "ascii_lower s = map ascii_lower_char s"

text \<open>\<open>s.startswith(p)\<close>.\<close>

definition startswith :: "string \<Rightarrow> string \<Rightarrow> bool" where
  "startswith s p = (take (length p) s = p)"

text \<open>\<open>s.endswith(p)\<close>.\<close>

definition endswith :: "string \<Rightarrow> string \<Rightarrow> bool" where
  "endswith s p = (length p \<le> length s \<and> drop (length s - length p) s = p)"

text \<open>\<open>p in s\<close> for two strings: \<open>p\<close> occurs in \<open>s\<close> as a contiguous substring.\<close>

fun contains :: "string \<Rightarrow> string \<Rightarrow> bool" where
  "contains p [] = (p = [])"
| "contains p (c # cs) = (startswith (c # cs) p \<or> contains p cs)"

text \<open>\<open>str(n)\<close> of a non-negative integer, as an f-string formats it.\<close>

fun str_nat :: "nat \<Rightarrow> string" where
  "str_nat n =
     (if n < 10 then [''0123456789'' ! n]
      else str_nat (n div 10) @ [''0123456789'' ! (n mod 10)])"

declare str_nat.simps [simp del]

text \<open>
  Indexing \<open>xs[i]\<close>: a negative index counts from the end, and an index outside
  \<open>-len(xs) .. len(xs) - 1\<close> raises \<open>IndexError\<close> (here \<open>None\<close>).
\<close>

definition py_get :: "'a list \<Rightarrow> int \<Rightarrow> 'a option" where
  "py_get xs i =
     (if 0 \<le> i \<and> i < int (length xs) then Some (xs ! nat i)
      else if - int (length xs) \<le> i \<and> i < 0 then Some (xs ! nat (int (length xs) + i))
      else None)"

text \<open>The exceptions that leave a method of \<open>FkFiles\<close> uncaught.\<close>

datatype exn = IndexError | KeyboardInterrupt

subsection \<open>posixpath\<close>

text \<open>\<open>os.path.join(a, b)\<close> on a POSIX system.\<close>

definition path_join :: "string \<Rightarrow> string \<Rightarrow> string" where
  "path_join a b =
     (if startswith b ''/'' then b
      else if a = [] \<or> endswith a ''/'' then a @ b
      else a @ ''/'' @ b)"

text \<open>
  \<open>p.rfind('/') + 1\<close>: the length of the longest prefix of \<open>p\<close> that ends with a slash,
  0 when \<open>p\<close> has no slash.
\<close>

fun rfind_slash :: "string \<Rightarrow> nat" where
  "rfind_slash [] = 0"
| "rfind_slash (c # cs) =
     (if CHR ''/'' \<in> set cs then Suc (rfind_slash cs)
      else if c = CHR ''/'' then 1 else 0)"

text \<open>\<open>os.path.basename(p)\<close>: what follows the last slash.\<close>

definition basename :: "string \<Rightarrow> string" where
  "basename p = drop (rfind_slash p) p"

text \<open>\<open>s.rstrip('/')\<close>.\<close>

definition rstrip_slash :: "string \<Rightarrow> string" where
  "rstrip_slash s = rev (dropWhile (\<lambda>c. c = CHR ''/'') (rev s))"

text \<open>
  \<open>os.path.dirname(p)\<close>: what precedes the last slash, without its trailing slashes
  unless it consists of slashes only. The program does not call it; it names the parent
  directory of a path in the statements about renaming.
\<close>

definition dirname :: "string \<Rightarrow> string" where
  "dirname p =
     (let head = take (rfind_slash p) p
      in if head \<noteq> [] \<and> head \<noteq> replicate (length head) CHR ''/''
         then rstrip_slash head else head)"

section \<open>The data of the file browser\<close>

text \<open>One element of \<open>self.files\<close>: the dictionary built by \<open>refresh_files\<close>.\<close>

record entry =
  name :: string
  is_dir :: bool
  size_b :: int
  mtime :: real
  mode :: string
  full_path :: string

text \<open>The fields of \<open>os.stat\<close>'s result that the program reads.\<close>

record stat_result =
  st_size :: int
  st_mtime :: real
  st_mode :: int

text \<open>
  The operating system is a parameter of the model. \<open>'w\<close> is the state of the world
  outside the process (the file system above all); each call the program makes is a
  function of that state. A call that raises \<open>OSError\<close> returns the text of the error
  (\<open>Inl\<close>, or \<open>None\<close> for \<open>os.stat\<close>, whose error the program drops); a call that
  changes the world returns the text of the exception it raised, if any, and the world
  it leaves behind. \<open>subprocess_run\<close> is \<open>subprocess.run(argv, check=True)\<close>, and
  \<open>str_lower\<close> is \<open>str.lower()\<close>.
\<close>

record 'w sys =
  str_lower :: "string \<Rightarrow> string"
  os_name :: string
  os_listdir :: "'w \<Rightarrow> string \<Rightarrow> string + string list"
  os_stat :: "'w \<Rightarrow> string \<Rightarrow> stat_result option"
  os_isdir :: "'w \<Rightarrow> string \<Rightarrow> bool"
  os_isfile :: "'w \<Rightarrow> string \<Rightarrow> bool"
  os_abspath :: "'w \<Rightarrow> string \<Rightarrow> string + string"
  os_rename :: "'w \<Rightarrow> string \<Rightarrow> string \<Rightarrow> string option \<times> 'w"
  os_rmdir :: "'w \<Rightarrow> string \<Rightarrow> string option \<times> 'w"
  os_unlink :: "'w \<Rightarrow> string \<Rightarrow> string option \<times> 'w"
  os_makedirs :: "'w \<Rightarrow> string \<Rightarrow> string option \<times> 'w"
  os_startfile :: "'w \<Rightarrow> string \<Rightarrow> string option \<times> 'w"
  subprocess_run :: "'w \<Rightarrow> string list \<Rightarrow> string option \<times> 'w"

text \<open>
  The attributes of a \<open>FkFiles\<close> object, together with the world it runs in.
  \<open>message_is_error\<close> stands for \<open>self.color\<close> (colour pair 4 for an error, 5
  otherwise). \<open>self.message_time\<close>, the wall-clock stamp by which \<open>draw_interface\<close>
  expires a message, and \<open>self.stdscr\<close> are not modelled.
\<close>

record 'w fkfiles =
  current_path :: string
  files :: "entry list"
  selected_idx :: int
  top_idx :: int
  command_mode :: bool
  command :: string
  message :: string
  message_is_error :: bool
  show_hidden :: bool
  clipboard :: "string list"
  clipboard_is_cut :: bool
  panel_width :: int
  world :: 'w

section \<open>Listing a directory\<close>

definition show_message :: "string \<Rightarrow> bool \<Rightarrow> 'w fkfiles \<Rightarrow> 'w fkfiles" where
  "show_message msg is_error st = st\<lparr>message := msg, message_is_error := is_error\<rparr>"

text \<open>\<open>get_mode_str\<close>, with the constants of the \<open>stat\<close> module written out.\<close>

definition perm_char :: "int \<Rightarrow> int \<Rightarrow> nat \<Rightarrow> char" where
  "perm_char m perm pos = (if m AND perm \<noteq> 0 then ''rwx'' ! (pos mod 3) else CHR ''-'')"

definition get_mode_str :: "int \<Rightarrow> string" where
  "get_mode_str m =
     (if m AND 61440 = 16384 then CHR ''d'' else CHR ''-'') #
     [perm_char m 256 0, perm_char m 128 1, perm_char m 64 2,
      perm_char m 32 3, perm_char m 16 4, perm_char m 8 5,
      perm_char m 4 6, perm_char m 2 7, perm_char m 1 8]"

text \<open>The synthetic entry for the parent directory.\<close>

definition parent_entry :: "string \<Rightarrow> entry" where
  "parent_entry cur =
     \<lparr>name = ''..'', is_dir = True, size_b = 0, mtime = 0, mode = '''',
      full_path = path_join cur ''..''\<rparr>"

text \<open>
  The loop over \<open>os.listdir(self.current_path)\<close>: a hidden name is skipped unless
  \<open>show_hidden\<close>, a name whose \<open>os.stat\<close> raises is skipped, every other name is appended.
\<close>

fun scan_dir ::
  "'w sys \<Rightarrow> 'w \<Rightarrow> string \<Rightarrow> bool \<Rightarrow> string list \<Rightarrow> entry list \<Rightarrow> entry list" where
  "scan_dir sy w cur hidden [] acc = acc"
| "scan_dir sy w cur hidden (e # es) acc =
     (if \<not> hidden \<and> startswith e ''.'' then scan_dir sy w cur hidden es acc
      else
        (case os_stat sy w (path_join cur e) of
           None \<Rightarrow> scan_dir sy w cur hidden es acc
         | Some info \<Rightarrow>
             scan_dir sy w cur hidden es
               (acc @ [\<lparr>name = e, is_dir = os_isdir sy w (path_join cur e),
                        size_b = st_size info, mtime = st_mtime info,
                        mode = get_mode_str (st_mode info),
                        full_path = path_join cur e\<rparr>])))"

text \<open>The sort key \<open>lambda x: (not x['is_dir'], x['name'].lower())\<close>.\<close>

definition sort_key_of :: "'w sys \<Rightarrow> entry \<Rightarrow> bool \<times> string" where
  "sort_key_of sy x = (\<not> is_dir x, str_lower sy (name x))"

text \<open>
  \<open>self.files[1:] = sorted(self.files[1:], key=...)\<close>: the first element stays where
  it is, whatever it is, and the rest is sorted (stably, as \<open>sorted\<close> does).
\<close>

definition sort_tail :: "'w sys \<Rightarrow> entry list \<Rightarrow> entry list" where
  "sort_tail sy fs =
     (case fs of [] \<Rightarrow> [] | f # rest \<Rightarrow> f # sort_key (sort_key_of sy) rest)"

definition refresh_files :: "'w sys \<Rightarrow> 'w fkfiles \<Rightarrow> 'w fkfiles" where
  "refresh_files sy st =
     (let base = (if current_path st \<noteq> ''/'' then [parent_entry (current_path st)] else [])
      in case os_listdir sy (world st) (current_path st) of
           Inl e \<Rightarrow> show_message (''Error: '' @ e) True (st\<lparr>files := base\<rparr>)
         | Inr names \<Rightarrow>
             st\<lparr>files :=
                  sort_tail sy
                    (scan_dir sy (world st) (current_path st) (show_hidden st) names base)\<rparr>)"

text \<open>
  \<open>navigate_to\<close>: when \<open>os.path.abspath\<close> raises, nothing has been assigned yet and the
  handler shows the error; otherwise the path and the indices are assigned before
  \<open>refresh_files\<close> runs, and \<open>refresh_files\<close> handles the error of the listing itself.
\<close>

definition navigate_to :: "'w sys \<Rightarrow> string \<Rightarrow> 'w fkfiles \<Rightarrow> 'w fkfiles" where
  "navigate_to sy path st =
     (case os_abspath sy (world st) path of
        Inl e \<Rightarrow> show_message (''Error: '' @ e) True st
      | Inr p \<Rightarrow> refresh_files sy (st\<lparr>current_path := p, selected_idx := 0, top_idx := 0\<rparr>))"

section \<open>Opening, deleting, copying, pasting, renaming\<close>

text \<open>
  \<open>open_file\<close>. The callers drop its boolean result, so the model returns the state
  only. Every exception of the body is caught and shown.
\<close>

definition open_file :: "'w sys \<Rightarrow> string \<Rightarrow> 'w fkfiles \<Rightarrow> 'w fkfiles" where
  "open_file sy file_path st =
     (if os_isdir sy (world st) file_path then navigate_to sy file_path st
      else
        (case (if os_name sy = ''nt'' then os_startfile sy (world st) file_path
               else subprocess_run sy (world st)
                      [if os_name sy = ''posix'' then ''xdg-open'' else ''open'', file_path]) of
           (None, w) \<Rightarrow> st\<lparr>world := w\<rparr>
         | (Some e, w) \<Rightarrow> show_message (''Error: '' @ e) True (st\<lparr>world := w\<rparr>)))"

text \<open>The end of the \<open>try\<close> block of \<open>delete_file\<close>: refresh, then clamp the selection.\<close>

definition delete_done :: "'w sys \<Rightarrow> 'w fkfiles \<Rightarrow> 'w fkfiles" where
  "delete_done sy st =
     (let st1 = refresh_files sy st
      in st1\<lparr>selected_idx := min (selected_idx st1) (int (length (files st1)) - 1)\<rparr>)"

text \<open>
  \<open>delete_file\<close>. The read \<open>self.files[self.selected_idx]\<close> stands before the \<open>try\<close>,
  so its \<open>IndexError\<close> leaves the method.
\<close>

definition delete_file :: "'w sys \<Rightarrow> 'w fkfiles \<Rightarrow> exn + 'w fkfiles" where
  "delete_file sy st =
     (if selected_idx st \<ge> int (length (files st)) then Inr st
      else
        (case py_get (files st) (selected_idx st) of
           None \<Rightarrow> Inl IndexError
         | Some file \<Rightarrow>
             if name file = ''..'' then Inr st
             else if is_dir file then
               (case os_listdir sy (world st) (full_path file) of
                  Inl e \<Rightarrow> Inr (show_message (''Error: '' @ e) True st)
                | Inr [] \<Rightarrow>
                    (case os_rmdir sy (world st) (full_path file) of
                       (Some e, w) \<Rightarrow> Inr (show_message (''Error: '' @ e) True (st\<lparr>world := w\<rparr>))
                     | (None, w) \<Rightarrow>
                         Inr (delete_done sy
                               (show_message (''Directory deleted: '' @ name file) False
                                 (st\<lparr>world := w\<rparr>))))
                | Inr (x # xs) \<Rightarrow> Inr (show_message ''Directory not empty!'' True st))
             else
               (case os_unlink sy (world st) (full_path file) of
                  (Some e, w) \<Rightarrow> Inr (show_message (''Error: '' @ e) True (st\<lparr>world := w\<rparr>))
                | (None, w) \<Rightarrow>
                    Inr (delete_done sy
                          (show_message (''File deleted: '' @ name file) False
                            (st\<lparr>world := w\<rparr>))))))"

definition copy_file :: "'w fkfiles \<Rightarrow> exn + 'w fkfiles" where
  "copy_file st =
     (if selected_idx st < int (length (files st)) then
        (case py_get (files st) (selected_idx st) of
           None \<Rightarrow> Inl IndexError
         | Some file \<Rightarrow>
             Inr (show_message ''Copied to clipboard'' False
                   (st\<lparr>clipboard := [full_path file], clipboard_is_cut := False\<rparr>)))
      else Inr st)"

definition cut_file :: "'w fkfiles \<Rightarrow> exn + 'w fkfiles" where
  "cut_file st =
     (if selected_idx st < int (length (files st)) then
        (case py_get (files st) (selected_idx st) of
           None \<Rightarrow> Inl IndexError
         | Some file \<Rightarrow>
             Inr (show_message ''Cut to clipboard'' False
                   (st\<lparr>clipboard := [full_path file], clipboard_is_cut := True\<rparr>)))
      else Inr st)"

text \<open>
  The body of the loop of \<open>paste_files\<close>, for one source path: \<open>paste_op\<close> is the call
  to the operating system in the \<open>try\<close> block (\<open>os.rename\<close> for a cut, \<open>cp\<close> or \<open>cp -r\<close>
  for a copy), \<open>paste_one\<close> shows its outcome.
\<close>

definition paste_op :: "'w sys \<Rightarrow> string \<Rightarrow> 'w fkfiles \<Rightarrow> string option \<times> 'w" where
  "paste_op sy src_path st =
     (let dst_path = path_join (current_path st) (basename src_path)
      in if clipboard_is_cut st then os_rename sy (world st) src_path dst_path
         else subprocess_run sy (world st)
                (if os_isdir sy (world st) src_path
                 then [''cp'', ''-r'', src_path, dst_path]
                 else [''cp'', src_path, dst_path]))"

definition paste_one :: "'w sys \<Rightarrow> string \<Rightarrow> 'w fkfiles \<Rightarrow> 'w fkfiles" where
  "paste_one sy src_path st =
     (case paste_op sy src_path st of
        (Some e, w) \<Rightarrow> show_message (''Error: '' @ e) True (st\<lparr>world := w\<rparr>)
      | (None, w) \<Rightarrow>
          show_message
            ((if clipboard_is_cut st then ''Moved: '' else ''Copied: '') @ basename src_path)
            False (st\<lparr>world := w\<rparr>))"

fun paste_loop :: "'w sys \<Rightarrow> string list \<Rightarrow> 'w fkfiles \<Rightarrow> 'w fkfiles" where
  "paste_loop sy [] st = st"
| "paste_loop sy (src_path # rest) st = paste_loop sy rest (paste_one sy src_path st)"

definition paste_files :: "'w sys \<Rightarrow> 'w fkfiles \<Rightarrow> 'w fkfiles" where
  "paste_files sy st =
     (if clipboard st = [] then show_message ''Clipboard is empty'' True st
      else refresh_files sy ((paste_loop sy (clipboard st) st)\<lparr>clipboard := []\<rparr>))"

text \<open>\<open>new_path\<close> of \<open>rename_file\<close>: the path the selected entry is renamed to.\<close>

definition rename_target :: "'w fkfiles \<Rightarrow> string \<Rightarrow> string" where
  "rename_target st new_name = path_join (current_path st) new_name"

definition rename_file :: "'w sys \<Rightarrow> string \<Rightarrow> 'w fkfiles \<Rightarrow> exn + 'w fkfiles" where
  "rename_file sy new_name st =
     (if selected_idx st \<ge> int (length (files st)) then Inr st
      else
        (case py_get (files st) (selected_idx st) of
           None \<Rightarrow> Inl IndexError
         | Some file \<Rightarrow>
             if name file = ''..'' then Inr st
             else
               (case os_rename sy (world st) (full_path file) (rename_target st new_name) of
                  (Some e, w) \<Rightarrow> Inr (show_message (''Error: '' @ e) True (st\<lparr>world := w\<rparr>))
                | (None, w) \<Rightarrow>
                    Inr (show_message (''Renamed to: '' @ new_name) False
                          (refresh_files sy (st\<lparr>world := w\<rparr>))))))"

definition create_directory :: "'w sys \<Rightarrow> string \<Rightarrow> 'w fkfiles \<Rightarrow> 'w fkfiles" where
  "create_directory sy dir_name st =
     (case os_makedirs sy (world st) (path_join (current_path st) dir_name) of
        (Some e, w) \<Rightarrow> show_message (''Error: '' @ e) True (st\<lparr>world := w\<rparr>)
      | (None, w) \<Rightarrow>
          show_message (''Directory created: '' @ dir_name) False
            (refresh_files sy (st\<lparr>world := w\<rparr>)))"

section \<open>Searching\<close>

text \<open>
  The loop of \<open>search_file\<close> over \<open>enumerate(self.files)\<close>: \<open>p\<close> is the lowered pattern,
  \<open>idx\<close> the index of the head of the remaining list, \<open>matches\<close> the indices found so
  far; the loop breaks at the fifth match.
\<close>

fun find_matches ::
  "'w sys \<Rightarrow> string \<Rightarrow> entry list \<Rightarrow> nat \<Rightarrow> nat list \<Rightarrow> nat list" where
  "find_matches sy p [] idx matches = matches"
| "find_matches sy p (file # rest) idx matches =
     (if contains p (str_lower sy (name file)) then
        (if length (matches @ [idx]) \<ge> 5 then matches @ [idx]
         else find_matches sy p rest (Suc idx) (matches @ [idx]))
      else find_matches sy p rest (Suc idx) matches)"

definition search_file :: "'w sys \<Rightarrow> string \<Rightarrow> 'w fkfiles \<Rightarrow> 'w fkfiles" where
  "search_file sy pattern st =
     (let matches = find_matches sy (str_lower sy pattern) (files st) 0 []
      in if matches \<noteq> [] then
           show_message (''Found '' @ str_nat (length matches) @ '' matches'') False
             (st\<lparr>selected_idx := int (hd matches),
                 top_idx := max 0 (int (hd matches) - 2)\<rparr>)
         else show_message ''No matches found'' True st)"

text \<open>
  \<open>view_file\<close> prints the file and waits for a line on standard input; of the modelled
  state it changes the message only, when the path is not a regular file.
\<close>

definition view_file :: "'w sys \<Rightarrow> string \<Rightarrow> 'w fkfiles \<Rightarrow> 'w fkfiles" where
  "view_file sy file_path st =
     (if \<not> os_isfile sy (world st) file_path then show_message ''Not a file'' True st else st)"

section \<open>Input\<close>

text \<open>
  The terminal delivers a sequence of events. \<open>stdscr.getch()\<close> takes the next one: a
  key arrives as its code, a mouse event as \<open>curses.KEY_MOUSE\<close>, after which
  \<open>curses.getmouse()\<close> yields its column, its row and its buttons. The three fields of
  \<open>buttons\<close> say whether \<open>bstate\<close> has a bit in common with \<open>BUTTON1_CLICKED\<close>,
  \<open>BUTTON1_DOUBLE_CLICKED\<close> and \<open>BUTTON3_CLICKED\<close>. A method that waits for an event when
  none is left is \<open>Blocked\<close>. The queue from which \<open>curses.getmouse()\<close> reads is not kept
  apart from the events: a mouse event that a chord reads as its second key leaves the
  input together with its data.
\<close>

record buttons =
  button1_clicked :: bool
  button1_double_clicked :: bool
  button3_clicked :: bool

datatype event = Key int | Mouse int int buttons

datatype 'a outcome = Blocked | Raised exn | Done 'a

definition KEY_MOUSE :: int where
  "KEY_MOUSE = 409"

definition KEY_DOWN :: int where
  "KEY_DOWN = 258"

definition KEY_UP :: int where
  "KEY_UP = 259"

definition KEY_BACKSPACE :: int where
  "KEY_BACKSPACE = 263"

text \<open>\<open>ord(c)\<close> of a character.\<close>

definition ord :: "char \<Rightarrow> int" where
  "ord c = of_char c"

definition key_code :: "event \<Rightarrow> int" where
  "key_code ev = (case ev of Key k \<Rightarrow> k | Mouse x y b \<Rightarrow> KEY_MOUSE)"

text \<open>
  The size of the terminal: \<open>curses.LINES\<close>, and the \<open>(h, w)\<close> of \<open>stdscr.getmaxyx()\<close>.
\<close>

record geom =
  LINES :: int
  max_y :: int
  max_x :: int

text \<open>
  \<open>str.split()\<close> without arguments: the maximal runs of characters that are not
  white space. \<open>split_ws w cs\<close> has read the word \<open>w\<close> so far and \<open>cs\<close> is left.
\<close>

definition isspace :: "char \<Rightarrow> bool" where
  "isspace c =
     (c \<in> set [CHR '' '', CHR 0x09, CHR 0x0A, CHR 0x0B, CHR 0x0C, CHR 0x0D,
                CHR 0x1C, CHR 0x1D, CHR 0x1E, CHR 0x1F])"

fun split_ws :: "string \<Rightarrow> string \<Rightarrow> string list" where
  "split_ws w [] = (if w = [] then [] else [w])"
| "split_ws w (c # cs) =
     (if isspace c then (if w = [] then split_ws [] cs else w # split_ws [] cs)
      else split_ws (w @ [c]) cs)"

definition split :: "string \<Rightarrow> string list" where
  "split s = split_ws [] s"

text \<open>\<open>' '.join(args)\<close>.\<close>

fun join_space :: "string list \<Rightarrow> string" where
  "join_space [] = []"
| "join_space [a] = a"
| "join_space (a # b # rest) = a @ '' '' @ join_space (b # rest)"

text \<open>
  \<open>show_about\<close> and \<open>show_help\<close> draw a page and wait for one event, which they drop.
\<close>

definition wait_key :: "event list \<Rightarrow> 'w fkfiles \<Rightarrow> ('w fkfiles \<times> event list) outcome" where
  "wait_key evs st = (case evs of [] \<Rightarrow> Blocked | ev # rest \<Rightarrow> Done (st, rest))"

definition execute_command ::
  "'w sys \<Rightarrow> event list \<Rightarrow> 'w fkfiles \<Rightarrow> ('w fkfiles \<times> event list) outcome" where
  "execute_command sy evs st =
     (if startswith (command st) ''/'' then Done (search_file sy (drop 1 (command st)) st, evs)
      else
        (case split (command st) of
           [] \<Rightarrow> Done (st, evs)
         | cmd # args \<Rightarrow>
             if cmd = ''q'' then Raised KeyboardInterrupt
             else if cmd = ''hdn'' then
               (let st1 = refresh_files sy (st\<lparr>show_hidden := \<not> show_hidden st\<rparr>)
                in Done (show_message
                           (''Hidden files: '' @ (if show_hidden st1 then ''ON'' else ''OFF''))
                           False st1, evs))
             else if cmd = ''mkdir'' \<and> args \<noteq> [] then
               Done (create_directory sy (join_space args) st, evs)
             else if cmd = ''ren'' \<and> args \<noteq> [] then
               (case rename_file sy (join_space args) st of
                  Inl e \<Rightarrow> Raised e
                | Inr st1 \<Rightarrow> Done (st1, evs))
             else if cmd = ''about'' then wait_key evs st
             else if cmd = ''ss'' \<and> args \<noteq> [] then
               Done (search_file sy (join_space args) st, evs)
             else if cmd = ''p'' \<and> args \<noteq> [] then
               (if os_isdir sy (world st) (join_space args)
                then Done (navigate_to sy (join_space args) st, evs)
                else Done (show_message ''Invalid path'' True st, evs))
             else Done (show_message (''Unknown command: '' @ cmd) True st, evs)))"

text \<open>
  \<open>handle_mouse_event\<close>, given what \<open>curses.getmouse()\<close> returned. The whole body is
  under a bare \<open>except\<close>, so an \<open>IndexError\<close> ends the method with the state as it
  is at that point.
\<close>

definition handle_mouse_event ::
  "'w sys \<Rightarrow> geom \<Rightarrow> int \<Rightarrow> int \<Rightarrow> buttons \<Rightarrow> 'w fkfiles \<Rightarrow> 'w fkfiles" where
  "handle_mouse_event sy g x y bstate st =
     (if y = 0 \<or> y \<ge> max_y g - 3 \<or> x = 0 \<or> x \<ge> max_x g - 1 \<or> x = panel_width st then st
      else if button1_clicked bstate then
        (if y \<ge> 1 \<and> y < max_y g - 3 then
           (let idx = top_idx st + (y - 1)
            in if idx < int (length (files st)) then
                 (let st1 = st\<lparr>selected_idx := idx\<rparr>
                  in if button1_double_clicked bstate then
                       (case py_get (files st1) (selected_idx st1) of
                          None \<Rightarrow> st1
                        | Some file \<Rightarrow> open_file sy (full_path file) st1)
                     else st1)
               else st)
         else st)
      else if button3_clicked bstate then
        (if selected_idx st < int (length (files st)) then
           (case py_get (files st) (selected_idx st) of
              None \<Rightarrow> st
            | Some file \<Rightarrow>
                if name file \<noteq> ''..''
                then show_message (''Right click on: '' @ name file) False st
                else st)
         else st)
      else st)"

text \<open>The branches of \<open>handle_input\<close> for \<open>j\<close>, \<open>k\<close> and \<open>G\<close>.\<close>

definition key_down :: "geom \<Rightarrow> 'w fkfiles \<Rightarrow> 'w fkfiles" where
  "key_down g st =
     (if selected_idx st < int (length (files st)) - 1 then
        st\<lparr>selected_idx := selected_idx st + 1,
            top_idx := (if selected_idx st + 1 \<ge> top_idx st + (LINES g - 5)
                        then top_idx st + 1 else top_idx st)\<rparr>
      else st)"

definition key_up :: "'w fkfiles \<Rightarrow> 'w fkfiles" where
  "key_up st =
     (if selected_idx st > 0 then
        st\<lparr>selected_idx := selected_idx st - 1,
            top_idx := (if selected_idx st - 1 < top_idx st
                        then top_idx st - 1 else top_idx st)\<rparr>
      else st)"

definition jump_bottom :: "geom \<Rightarrow> 'w fkfiles \<Rightarrow> 'w fkfiles" where
  "jump_bottom g st =
     st\<lparr>selected_idx := int (length (files st)) - 1,
         top_idx := max 0 (int (length (files st)) - (LINES g - 5))\<rparr>"

text \<open>The part of \<open>handle_input\<close> that runs in command mode.\<close>

definition command_key ::
  "'w sys \<Rightarrow> int \<Rightarrow> event list \<Rightarrow> 'w fkfiles \<Rightarrow> ('w fkfiles \<times> event list) outcome" where
  "command_key sy key rest st =
     (if key = 27 then Done (st\<lparr>command_mode := False, command := []\<rparr>, rest)
      else if key = KEY_BACKSPACE \<or> key = 127 then
        Done (st\<lparr>command := butlast (command st)\<rparr>, rest)
      else if key = 10 then
        (case execute_command sy rest st of
           Blocked \<Rightarrow> Blocked
         | Raised e \<Rightarrow> Raised e
         | Done (st1, rest1) \<Rightarrow> Done (st1\<lparr>command_mode := False, command := []\<rparr>, rest1))
      else if 32 \<le> key \<and> key \<le> 126 then
        Done (st\<lparr>command := command st @ [char_of key]\<rparr>, rest)
      else Done (st, rest))"

text \<open>
  The part of \<open>handle_input\<close> that runs outside command mode. A chord (\<open>gg\<close>, \<open>dd\<close>,
  \<open>yy\<close>, \<open>pp\<close>) reads its second event with a second \<open>getch()\<close>.
\<close>

definition normal_key ::
  "'w sys \<Rightarrow> geom \<Rightarrow> int \<Rightarrow> event list \<Rightarrow> 'w fkfiles \<Rightarrow> ('w fkfiles \<times> event list) outcome"
  where
  "normal_key sy g key rest st =
     (if key = ord CHR ''j'' \<or> key = KEY_DOWN then Done (key_down g st, rest)
      else if key = ord CHR ''k'' \<or> key = KEY_UP then Done (key_up st, rest)
      else if key = ord CHR ''l'' \<or> key = 10 then
        (if length (files st) > 0 then
           (case py_get (files st) (selected_idx st) of
              None \<Rightarrow> Raised IndexError
            | Some file \<Rightarrow> Done (open_file sy (full_path file) st, rest))
         else Done (st, rest))
      else if key = ord CHR ''h'' then
        (if current_path st \<noteq> ''/''
         then Done (navigate_to sy (path_join (current_path st) ''..'') st, rest)
         else Done (st, rest))
      else if key = ord CHR ''g'' then
        (case rest of
           [] \<Rightarrow> Blocked
         | next_key # rest1 \<Rightarrow>
             if key_code next_key = ord CHR ''g''
             then Done (st\<lparr>selected_idx := 0, top_idx := 0\<rparr>, rest1)
             else Done (st, rest1))
      else if key = ord CHR ''G'' then Done (jump_bottom g st, rest)
      else if key = ord CHR '':'' then Done (st\<lparr>command_mode := True, command := []\<rparr>, rest)
      else if key = ord CHR ''/'' then Done (st\<lparr>command_mode := True, command := ''/''\<rparr>, rest)
      else if key = ord CHR ''?'' then wait_key rest st
      else if key = ord CHR ''d'' then
        (case rest of
           [] \<Rightarrow> Blocked
         | next_key # rest1 \<Rightarrow>
             if key_code next_key = ord CHR ''d'' then
               (case delete_file sy st of
                  Inl e \<Rightarrow> Raised e
                | Inr st1 \<Rightarrow> Done (st1, rest1))
             else Done (st, rest1))
      else if key = ord CHR ''y'' then
        (case rest of
           [] \<Rightarrow> Blocked
         | next_key # rest1 \<Rightarrow>
             if key_code next_key = ord CHR ''y'' then
               (case copy_file st of
                  Inl e \<Rightarrow> Raised e
                | Inr st1 \<Rightarrow> Done (st1, rest1))
             else Done (st, rest1))
      else if key = ord CHR ''p'' then
        (case rest of
           [] \<Rightarrow> Blocked
         | next_key # rest1 \<Rightarrow>
             if key_code next_key = ord CHR ''p''
             then Done (paste_files sy st, rest1)
             else Done (st, rest1))
      else if key = ord CHR ''v'' then
        (if length (files st) > 0 then
           (case py_get (files st) (selected_idx st) of
              None \<Rightarrow> Raised IndexError
            | Some file \<Rightarrow>
                if \<not> is_dir file then Done (view_file sy (full_path file) st, rest)
                else Done (st, rest))
         else Done (st, rest))
      else Done (st, rest))"

text \<open>
  \<open>handle_input\<close>: one call of the main loop. It takes the pending events and returns
  the new state with the events it has not read. A \<open>KEY_MOUSE\<close> that comes without a
  mouse event makes \<open>curses.getmouse()\<close> raise, which \<open>handle_mouse_event\<close> swallows.
\<close>

definition handle_input ::
  "'w sys \<Rightarrow> geom \<Rightarrow> event list \<Rightarrow> 'w fkfiles \<Rightarrow> ('w fkfiles \<times> event list) outcome" where
  "handle_input sy g evs st =
     (case evs of
        [] \<Rightarrow> Blocked
      | ev # rest \<Rightarrow>
          (case ev of
             Mouse x y bstate \<Rightarrow> Done (handle_mouse_event sy g x y bstate st, rest)
           | Key key \<Rightarrow>
               if key = KEY_MOUSE then Done (st, rest)
               else if command_mode st then command_key sy key rest st
               else normal_key sy g key rest st))"

text \<open>
  \<open>__init__\<close>: \<open>cwd\<close> is what \<open>os.getcwd()\<close> returns and \<open>w\<close> the world at that moment.
  \<open>check_terminal_size\<close> ends the process (\<open>None\<close>) when the terminal is smaller than
  40 columns by 10 rows.
\<close>

definition init :: "'w sys \<Rightarrow> geom \<Rightarrow> string \<Rightarrow> 'w \<Rightarrow> 'w fkfiles option" where
  "init sy g cwd w =
     (if max_y g < 10 \<or> max_x g < 40 then None
      else Some (refresh_files sy
             \<lparr>current_path = cwd, files = [], selected_idx = 0, top_idx = 0,
              command_mode = False, command = [], message = [], message_is_error = False,
              show_hidden = False, clipboard = [], clipboard_is_cut = False,
              panel_width = max_x g div 2 - 1, world = w\<rparr>))"

section \<open>A small file system for the examples\<close>

text \<open>
  The theorems below hold for every operating system. Their examples run on this one:
  a table from absolute paths to files (with their size), directories (with the names
  in them, in the order \<open>os.listdir\<close> gives them) and directories that cannot be read.
  Files can be removed and renamed, empty directories removed; there is no program to
  copy or to open a file with.
\<close>

datatype node = File int | Dir "string list" | Locked

type_synonym tree = "(string \<times> node) list"

definition demo_listdir :: "tree \<Rightarrow> string \<Rightarrow> string + string list" where
  "demo_listdir t p =
     (case map_of t p of
        None \<Rightarrow> Inl ''[Errno 2] No such file or directory''
      | Some (File n) \<Rightarrow> Inl ''[Errno 20] Not a directory''
      | Some (Dir ns) \<Rightarrow> Inr ns
      | Some Locked \<Rightarrow> Inl ''[Errno 13] Permission denied'')"

definition demo_stat :: "tree \<Rightarrow> string \<Rightarrow> stat_result option" where
  "demo_stat t p =
     (case map_of t p of
        None \<Rightarrow> None
      | Some (File n) \<Rightarrow> Some \<lparr>st_size = n, st_mtime = 1, st_mode = 33188\<rparr>
      | Some (Dir ns) \<Rightarrow> Some \<lparr>st_size = 4096, st_mtime = 1, st_mode = 16877\<rparr>
      | Some Locked \<Rightarrow> Some \<lparr>st_size = 4096, st_mtime = 1, st_mode = 16384\<rparr>)"

definition demo_isdir :: "tree \<Rightarrow> string \<Rightarrow> bool" where
  "demo_isdir t p =
     (case map_of t p of None \<Rightarrow> False | Some (File n) \<Rightarrow> False
      | Some (Dir ns) \<Rightarrow> True | Some Locked \<Rightarrow> True)"

definition demo_isfile :: "tree \<Rightarrow> string \<Rightarrow> bool" where
  "demo_isfile t p =
     (case map_of t p of None \<Rightarrow> False | Some (File n) \<Rightarrow> True
      | Some (Dir ns) \<Rightarrow> False | Some Locked \<Rightarrow> False)"

definition drop_child :: "string \<Rightarrow> tree \<Rightarrow> tree" where
  "drop_child p t =
     map (\<lambda>(q, n). (q, case n of
                          Dir ns \<Rightarrow> if q = dirname p then Dir (removeAll (basename p) ns)
                                    else Dir ns
                        | File k \<Rightarrow> File k
                        | Locked \<Rightarrow> Locked))
       (filter (\<lambda>(q, n). q \<noteq> p) t)"

definition add_child :: "string \<Rightarrow> node \<Rightarrow> tree \<Rightarrow> tree" where
  "add_child p n t =
     (p, n) #
     map (\<lambda>(q, m). (q, case m of
                          Dir ns \<Rightarrow> if q = dirname p then Dir (ns @ [basename p]) else Dir ns
                        | File k \<Rightarrow> File k
                        | Locked \<Rightarrow> Locked)) t"

definition demo_unlink :: "tree \<Rightarrow> string \<Rightarrow> string option \<times> tree" where
  "demo_unlink t p =
     (case map_of t p of
        None \<Rightarrow> (Some ''[Errno 2] No such file or directory'', t)
      | Some (File n) \<Rightarrow> (None, drop_child p t)
      | Some (Dir ns) \<Rightarrow> (Some ''[Errno 21] Is a directory'', t)
      | Some Locked \<Rightarrow> (Some ''[Errno 21] Is a directory'', t))"

definition demo_rmdir :: "tree \<Rightarrow> string \<Rightarrow> string option \<times> tree" where
  "demo_rmdir t p =
     (case map_of t p of
        None \<Rightarrow> (Some ''[Errno 2] No such file or directory'', t)
      | Some (File n) \<Rightarrow> (Some ''[Errno 20] Not a directory'', t)
      | Some (Dir ns) \<Rightarrow>
          if ns = [] then (None, drop_child p t)
          else (Some ''[Errno 39] Directory not empty'', t)
      | Some Locked \<Rightarrow> (Some ''[Errno 13] Permission denied'', t))"

definition demo_rename :: "tree \<Rightarrow> string \<Rightarrow> string \<Rightarrow> string option \<times> tree" where
  "demo_rename t a b =
     (case map_of t a of
        None \<Rightarrow> (Some ''[Errno 2] No such file or directory'', t)
      | Some (File n) \<Rightarrow>
          (case map_of t (dirname b) of
             None \<Rightarrow> (Some ''[Errno 2] No such file or directory'', t)
           | Some (File k) \<Rightarrow> (Some ''[Errno 20] Not a directory'', t)
           | Some (Dir ns) \<Rightarrow> (None, add_child b (File n) (drop_child b (drop_child a t)))
           | Some Locked \<Rightarrow> (Some ''[Errno 13] Permission denied'', t))
      | Some (Dir ns) \<Rightarrow> (Some ''[Errno 16] Device or resource busy'', t)
      | Some Locked \<Rightarrow> (Some ''[Errno 16] Device or resource busy'', t))"

definition demo_sys :: "tree sys" where
  "demo_sys =
     \<lparr>str_lower = ascii_lower,
      os_name = ''posix'',
      os_listdir = demo_listdir,
      os_stat = demo_stat,
      os_isdir = demo_isdir,
      os_isfile = demo_isfile,
      os_abspath = (\<lambda>t p. Inr p),
      os_rename = demo_rename,
      os_rmdir = demo_rmdir,
      os_unlink = demo_unlink,
      os_makedirs = (\<lambda>t p. (Some ''[Errno 30] Read-only file system'', t)),
      os_startfile = (\<lambda>t p. (Some ''startfile is not available'', t)),
      subprocess_run = (\<lambda>t argv. (Some ''[Errno 2] No such file or directory'', t))\<rparr>"

definition demo_tree :: tree where
  "demo_tree =
     [(''/'', Dir [''zeta.txt'', ''bin'', ''home'', ''secret'']),
      (''/zeta.txt'', File 7),
      (''/bin'', Dir []),
      (''/home'', Dir [''u'']),
      (''/home/u'', Dir [''readme.txt'', ''.profile'', ''docs'']),
      (''/home/u/readme.txt'', File 120),
      (''/home/u/.profile'', File 10),
      (''/home/u/docs'', Dir [''a.txt'']),
      (''/home/u/docs/a.txt'', File 3),
      (''/secret'', Locked)]"

definition demo_geom :: geom where
  "demo_geom = \<lparr>LINES = 24, max_y = 24, max_x = 80\<rparr>"

text \<open>The state of the browser after it has started in \<open>cwd\<close> on the example system.\<close>

definition demo_start :: "string \<Rightarrow> tree fkfiles" where
  "demo_start cwd = the (init demo_sys demo_geom cwd demo_tree)"

text \<open>A directory tree whose root is empty: the browser starts there with an empty listing.\<close>

definition bare_tree :: tree where
  "bare_tree = [(''/'', Dir [])]"

text \<open>
  A directory whose names mix upper and lower case, and the state of the browser after
  it has started there.
\<close>

definition mixed_tree :: tree where
  "mixed_tree =
     [(''/'', Dir [''work'']),
      (''/work'',
       Dir [''README.md'', ''Makefile'', ''src'', ''notes.TXT'', ''c.h'', ''B.c'', ''a.c'']),
      (''/work/README.md'', File 40),
      (''/work/Makefile'', File 30),
      (''/work/src'', Dir []),
      (''/work/notes.TXT'', File 20),
      (''/work/c.h'', File 3),
      (''/work/B.c'', File 2),
      (''/work/a.c'', File 1)]"

definition mixed_start :: "tree fkfiles" where
  "mixed_start = the (init demo_sys demo_geom ''/work'' mixed_tree)"

section \<open>The main loop and the notions the statements use\<close>






text \<open>
  The indices, in the order of the listing, of the entries whose name contains the
  pattern when both are lowered by \<open>low\<close>.
\<close>

definition match_indices :: "(string \<Rightarrow> string) \<Rightarrow> string \<Rightarrow> entry list \<Rightarrow> nat list" where
  "match_indices low pattern fs =
     filter (\<lambda>i. contains (low pattern) (low (name (fs ! i)))) [0..<length fs]"

text \<open>
  A listing is in order when its directories come before its files and, within each of
  the two groups, the names lowered by \<open>low\<close> ascend.
\<close>

definition in_order :: "(string \<Rightarrow> string) \<Rightarrow> entry list \<Rightarrow> bool" where
  "in_order low fs = sorted (map (\<lambda>x. (\<not> is_dir x, low (name x))) fs)"

section \<open>Facts about the helpers\<close>

lemmas str_defs = ascii_lower_def ascii_lower_char_def startswith_def endswith_def path_join_def
  basename_def dirname_def rstrip_slash_def

lemmas demo_defs = demo_sys_def demo_tree_def demo_geom_def demo_start_def init_def
  demo_listdir_def demo_stat_def demo_isdir_def demo_isfile_def demo_unlink_def
  demo_rmdir_def demo_rename_def drop_child_def add_child_def bare_tree_def mixed_tree_def
  mixed_start_def

lemmas listing_defs = refresh_files_def sort_tail_def sort_key_of_def parent_entry_def
  show_message_def get_mode_str_def perm_char_def navigate_to_def

lemmas key_defs = ord_def KEY_MOUSE_def KEY_DOWN_def KEY_UP_def KEY_BACKSPACE_def key_code_def

lemma py_get_Some_less: "py_get xs i = Some x \<Longrightarrow> i < int (length xs)"
  by (auto simp: py_get_def Let_def split: if_splits)

lemma py_get_nth: "0 \<le> i \<Longrightarrow> i < int (length xs) \<Longrightarrow> py_get xs i = Some (xs ! nat i)"
  by (simp add: py_get_def)

lemma refresh_files_frame:
  "current_path (refresh_files sy st) = current_path st"
  "selected_idx (refresh_files sy st) = selected_idx st"
  "top_idx (refresh_files sy st) = top_idx st"
  "command_mode (refresh_files sy st) = command_mode st"
  "command (refresh_files sy st) = command st"
  "show_hidden (refresh_files sy st) = show_hidden st"
  "clipboard (refresh_files sy st) = clipboard st"
  "clipboard_is_cut (refresh_files sy st) = clipboard_is_cut st"
  "panel_width (refresh_files sy st) = panel_width st"
  "world (refresh_files sy st) = world st"
  by (simp_all add: refresh_files_def show_message_def Let_def split: sum.splits)

lemma demo_home:
  "demo_start ''/home/u'' =
     \<lparr>current_path = ''/home/u'',
      files =
        [\<lparr>name = ''..'', is_dir = True, size_b = 0, mtime = 0, mode = [],
          full_path = ''/home/u/..''\<rparr>,
         \<lparr>name = ''docs'', is_dir = True, size_b = 4096, mtime = 1,
          mode = ''drwxr-xr-x'', full_path = ''/home/u/docs''\<rparr>,
         \<lparr>name = ''readme.txt'', is_dir = False, size_b = 120, mtime = 1,
          mode = ''-rw-r--r--'', full_path = ''/home/u/readme.txt''\<rparr>],
      selected_idx = 0, top_idx = 0, command_mode = False, command = [],
      message = [], message_is_error = False, show_hidden = False,
      clipboard = [], clipboard_is_cut = False, panel_width = 39,
      world = demo_tree\<rparr>"
  by (simp add: str_defs demo_defs listing_defs)

text \<open>
  Claim C4. Outside command mode, the key \<open>d\<close> followed by any event that is not the
  key \<open>d\<close> takes both events from the input and leaves the whole state as it was: nothing
  is deleted, the second event runs no command of its own, the mode and the listing are
  unchanged, and the next round starts with the events that follow.
\<close>

theorem dropped_delete_chord:
  "\<not> command_mode st \<Longrightarrow> key_code ev \<noteq> ord CHR ''d'' \<Longrightarrow>
     handle_input sy g (Key (ord CHR ''d'') # ev # rest) st = Done (st, rest)"
  by (simp add: handle_input_def normal_key_def key_defs)

theorem dropped_delete_chord_witness:
  "\<not> command_mode (demo_start ''/home/u'') \<and> key_code (Key (ord CHR ''j'')) \<noteq> ord CHR ''d'' \<and>
   handle_input demo_sys demo_geom [Key (ord CHR ''d''), Key (ord CHR ''j''), Key (ord CHR ''j'')]
     (demo_start ''/home/u'') = Done (demo_start ''/home/u'', [Key (ord CHR ''j'')])"
proof -
  have mode: "\<not> command_mode (demo_start ''/home/u'')"
    by (simp add: demo_home)
  have other: "key_code (Key (ord CHR ''j'')) \<noteq> ord CHR ''d''"
    by (simp add: key_defs)
  from dropped_delete_chord [OF mode other] mode other show ?thesis
    by blast
qed

text \<open>
  Claim C10. When the selected entry is the synthetic \<open>..\<close> entry, copy and cut do not
  refuse it: each puts the path of \<open>..\<close> into the clipboard, sets the cut flag (off for
  copy, on for cut) and reports success, whereas delete and rename return without doing
  anything.
\<close>

theorem copy_cut_accept_parent_entry:
  assumes "py_get (files st) (selected_idx st) = Some file" and "name file = ''..''"
  shows "(\<exists>st1. copy_file st = Inr st1 \<and> clipboard st1 = [full_path file] \<and>
            \<not> clipboard_is_cut st1 \<and> message st1 = ''Copied to clipboard'' \<and>
            \<not> message_is_error st1) \<and>
         (\<exists>st2. cut_file st = Inr st2 \<and> clipboard st2 = [full_path file] \<and>
            clipboard_is_cut st2 \<and> message st2 = ''Cut to clipboard'' \<and>
            \<not> message_is_error st2) \<and>
         delete_file sy st = Inr st \<and> rename_file sy new_name st = Inr st"
  using assms py_get_Some_less [OF assms(1)]
  by (simp add: copy_file_def cut_file_def delete_file_def rename_file_def show_message_def)

theorem copy_cut_accept_parent_entry_witness:
  "py_get (files (demo_start ''/home/u'')) (selected_idx (demo_start ''/home/u'')) =
     Some (parent_entry ''/home/u'') \<and>
   name (parent_entry ''/home/u'') = ''..'' \<and>
   (\<exists>st1. copy_file (demo_start ''/home/u'') = Inr st1 \<and> clipboard st1 = [''/home/u/..''] \<and>
      \<not> clipboard_is_cut st1 \<and> message st1 = ''Copied to clipboard'' \<and>
      \<not> message_is_error st1) \<and>
   (\<exists>st2. cut_file (demo_start ''/home/u'') = Inr st2 \<and> clipboard st2 = [''/home/u/..''] \<and>
      clipboard_is_cut st2 \<and> message st2 = ''Cut to clipboard'' \<and>
      \<not> message_is_error st2) \<and>
   delete_file demo_sys (demo_start ''/home/u'') = Inr (demo_start ''/home/u'') \<and>
   rename_file demo_sys ''x'' (demo_start ''/home/u'') = Inr (demo_start ''/home/u'')"
proof -
  have sel: "py_get (files (demo_start ''/home/u'')) (selected_idx (demo_start ''/home/u'')) =
      Some (parent_entry ''/home/u'')"
    by (simp add: demo_home py_get_def parent_entry_def str_defs)
  have nm: "name (parent_entry ''/home/u'') = ''..''"
    by (simp add: parent_entry_def)
  have fp: "full_path (parent_entry ''/home/u'') = ''/home/u/..''"
    by (simp add: parent_entry_def str_defs)
  from copy_cut_accept_parent_entry [OF sel nm, of demo_sys "''x''"] sel nm fp show ?thesis
    by simp
qed

section \<open>The listing\<close>

lemma scan_dir_Cons:
  "scan_dir sy w cur h names (a # acc) = a # scan_dir sy w cur h names acc"
  by (induction names arbitrary: acc) (auto split: option.splits)

lemma scan_dir_member:
  "e \<in> set (scan_dir sy w cur h names acc) \<Longrightarrow>
     e \<in> set acc \<or>
     (\<exists>info. os_stat sy w (full_path e) = Some info \<and> size_b e = st_size info \<and>
        is_dir e = os_isdir sy w (full_path e) \<and> full_path e = path_join cur (name e))"
proof (induction names arbitrary: acc)
  case Nil
  then show ?case by simp
next
  case (Cons n names)
  from Cons.prems consider
    (skip) "e \<in> set (scan_dir sy w cur h names acc)"
  | (keep) info where "os_stat sy w (path_join cur n) = Some info"
      and "e \<in> set (scan_dir sy w cur h names
             (acc @ [\<lparr>name = n, is_dir = os_isdir sy w (path_join cur n),
                      size_b = st_size info, mtime = st_mtime info,
                      mode = get_mode_str (st_mode info), full_path = path_join cur n\<rparr>]))"
    by (auto split: if_splits option.splits)
  then show ?case
  proof cases
    case skip
    then show ?thesis by (rule Cons.IH)
  next
    case (keep info)
    from Cons.IH [OF keep(2)] keep(1) show ?thesis by auto
  qed
qed

lemma set_sort_tail: "set (sort_tail sy fs) = set fs"
  by (cases fs) (simp_all add: sort_tail_def)

lemma files_refresh_files:
  "files (refresh_files sy st) =
     (case os_listdir sy (world st) (current_path st) of
        Inl e \<Rightarrow> (if current_path st \<noteq> ''/'' then [parent_entry (current_path st)] else [])
      | Inr names \<Rightarrow>
          sort_tail sy (scan_dir sy (world st) (current_path st) (show_hidden st) names
            (if current_path st \<noteq> ''/'' then [parent_entry (current_path st)] else [])))"
  by (simp add: refresh_files_def show_message_def Let_def split: sum.splits)

lemma in_order_nth:
  assumes "in_order low fs" and "i < j" and "j < length fs"
  shows "(is_dir (fs ! j) \<longrightarrow> is_dir (fs ! i)) \<and>
         (is_dir (fs ! i) = is_dir (fs ! j) \<longrightarrow> low (name (fs ! i)) \<le> low (name (fs ! j)))"
proof -
  let ?key = "\<lambda>x. (\<not> is_dir x, low (name x))"
  from assms have "map ?key fs ! i \<le> map ?key fs ! j"
    unfolding in_order_def by (intro sorted_nth_mono) auto
  with assms show ?thesis
    by (auto simp: less_eq_prod_def)
qed

lemma refresh_files_below_root:
  assumes "current_path st \<noteq> ''/''"
    and "os_listdir sy (world st) (current_path st) = Inr names"
  shows "\<exists>rest. files (refresh_files sy st) = parent_entry (current_path st) # rest \<and>
           in_order (str_lower sy) rest"
proof -
  have key: "(\<lambda>x. (\<not> is_dir x, str_lower sy (name x))) = sort_key_of sy"
    by (simp add: sort_key_of_def fun_eq_iff)
  from assms show ?thesis
    by (simp add: files_refresh_files scan_dir_Cons sort_tail_def in_order_def key)
qed

lemma demo_root:
  "demo_start ''/'' =
     \<lparr>current_path = ''/'',
      files =
        [\<lparr>name = ''zeta.txt'', is_dir = False, size_b = 7, mtime = 1,
          mode = ''-rw-r--r--'', full_path = ''/zeta.txt''\<rparr>,
         \<lparr>name = ''bin'', is_dir = True, size_b = 4096, mtime = 1,
          mode = ''drwxr-xr-x'', full_path = ''/bin''\<rparr>,
         \<lparr>name = ''home'', is_dir = True, size_b = 4096, mtime = 1,
          mode = ''drwxr-xr-x'', full_path = ''/home''\<rparr>,
         \<lparr>name = ''secret'', is_dir = True, size_b = 4096, mtime = 1,
          mode = ''d---------'', full_path = ''/secret''\<rparr>],
      selected_idx = 0, top_idx = 0, command_mode = False, command = [],
      message = [], message_is_error = False, show_hidden = False,
      clipboard = [], clipboard_is_cut = False, panel_width = 39,
      world = demo_tree\<rparr>"
  by (simp add: str_defs demo_defs listing_defs)

lemma demo_home_refresh: "refresh_files demo_sys (demo_start ''/home/u'') = demo_start ''/home/u''"
  unfolding demo_home by (simp add: str_defs demo_defs listing_defs)

lemma demo_root_refresh: "refresh_files demo_sys (demo_start ''/'') = demo_start ''/''"
  unfolding demo_root by (simp add: str_defs demo_defs listing_defs)

text \<open>
  Claim C1 says that a navigation whose listing fails leaves everything but the message
  as it was. It does not: the directory the browser is left in is the new one, and its
  listing holds the \<open>..\<close> entry only.
\<close>

theorem navigate_to_unreadable_counterexample:
  "os_listdir demo_sys (world (demo_start ''/home/u'')) ''/secret'' =
     Inl ''[Errno 13] Permission denied'' \<and>
   current_path (demo_start ''/home/u'') = ''/home/u'' \<and>
   map name (files (demo_start ''/home/u'')) = [''..'', ''docs'', ''readme.txt''] \<and>
   current_path (navigate_to demo_sys ''/secret'' (demo_start ''/home/u'')) = ''/secret'' \<and>
   map name (files (navigate_to demo_sys ''/secret'' (demo_start ''/home/u''))) = [''..'']"
  unfolding demo_home by (simp add: str_defs demo_defs listing_defs)

text \<open>
  Claim C1, amended. For every path that resolves to \<open>p\<close> and whose listing fails with
  the error \<open>e\<close>, \<open>navigate_to\<close> makes \<open>p\<close> the current path, sets the selection and the
  top of the window to 0, leaves a listing that holds the \<open>..\<close> entry of \<open>p\<close> only (no
  entry at all when \<open>p\<close> is the root) and shows \<open>e\<close> as an error message; every other
  field of the state, the clipboard and the mode among them, is unchanged.
\<close>

theorem navigate_to_unreadable:
  assumes "os_abspath sy (world st) path = Inr p"
    and "os_listdir sy (world st) p = Inl e"
  shows "navigate_to sy path st =
           st\<lparr>current_path := p, selected_idx := 0, top_idx := 0,
              files := (if p \<noteq> ''/'' then [parent_entry p] else []),
              message := ''Error: '' @ e, message_is_error := True\<rparr>"
  using assms by (simp add: navigate_to_def refresh_files_def show_message_def)

theorem navigate_to_unreadable_witness:
  "os_abspath demo_sys (world (demo_start ''/home/u'')) ''/secret'' = Inr ''/secret'' \<and>
   os_listdir demo_sys (world (demo_start ''/home/u'')) ''/secret'' =
     Inl ''[Errno 13] Permission denied'' \<and>
   navigate_to demo_sys ''/secret'' (demo_start ''/home/u'') =
     (demo_start ''/home/u'')
       \<lparr>current_path := ''/secret'', selected_idx := 0, top_idx := 0,
        files := [parent_entry ''/secret''],
        message := ''Error: [Errno 13] Permission denied'', message_is_error := True\<rparr>"
proof -
  have a: "os_abspath demo_sys (world (demo_start ''/home/u'')) ''/secret'' = Inr ''/secret''"
    by (simp add: demo_sys_def)
  have l: "os_listdir demo_sys (world (demo_start ''/home/u'')) ''/secret'' =
      Inl ''[Errno 13] Permission denied''"
    by (simp add: demo_home demo_sys_def demo_listdir_def demo_tree_def)
  from navigate_to_unreadable [OF a l] a l show ?thesis
    by simp
qed

text \<open>
  Claim C2 fails at the root directory. \<open>refresh_files\<close> sorts \<open>self.files[1:]\<close>, which
  skips the \<open>..\<close> entry below the root; at the root there is no \<open>..\<close> entry and the
  slice skips the first name \<open>os.listdir\<close> returned instead. Here the root lists
  \<open>zeta.txt\<close>, \<open>bin\<close>, \<open>home\<close>, \<open>secret\<close>, and the file \<open>zeta.txt\<close> stays ahead of the
  three directories.
\<close>

theorem root_listing_not_in_order:
  "current_path (demo_start ''/'') = ''/'' \<and>
   os_listdir demo_sys (world (demo_start ''/'')) ''/'' =
     Inr [''zeta.txt'', ''bin'', ''home'', ''secret''] \<and>
   map name (files (refresh_files demo_sys (demo_start ''/''))) =
     [''zeta.txt'', ''bin'', ''home'', ''secret''] \<and>
   map is_dir (files (refresh_files demo_sys (demo_start ''/''))) = [False, True, True, True] \<and>
   \<not> in_order (str_lower demo_sys) (files (refresh_files demo_sys (demo_start ''/'')))"
  unfolding demo_root_refresh unfolding demo_root
  by (simp add: demo_sys_def demo_listdir_def demo_tree_def in_order_def
      ascii_lower_def ascii_lower_char_def)

text \<open>
  Claim C8 says that a directory is stored with size 0. It is stored with the size
  \<open>os.stat\<close> reports for it, here 4096.
\<close>

theorem directory_size_counterexample:
  "name (files (refresh_files demo_sys (demo_start ''/home/u'')) ! 1) = ''docs'' \<and>
   is_dir (files (refresh_files demo_sys (demo_start ''/home/u'')) ! 1) \<and>
   size_b (files (refresh_files demo_sys (demo_start ''/home/u'')) ! 1) = 4096"
  unfolding demo_home_refresh unfolding demo_home by simp

text \<open>
  Claim C8, amended. Every entry of a refreshed listing is either the synthetic \<open>..\<close>
  entry, which is there only below the root and has size 0, or an entry for a path that
  \<open>os.stat\<close> answered, whose size is the \<open>st_size\<close> of that answer, directories included.
\<close>

theorem refresh_files_sizes:
  "\<forall>e \<in> set (files (refresh_files sy st)).
     (current_path st \<noteq> ''/'' \<and> e = parent_entry (current_path st) \<and> size_b e = 0) \<or>
     (\<exists>info. os_stat sy (world st) (full_path e) = Some info \<and> size_b e = st_size info)"
proof
  fix e
  assume e: "e \<in> set (files (refresh_files sy st))"
  let ?base = "if current_path st \<noteq> ''/'' then [parent_entry (current_path st)] else []"
  have base: "x \<in> set ?base \<Longrightarrow>
      current_path st \<noteq> ''/'' \<and> x = parent_entry (current_path st) \<and> size_b x = 0" for x
    by (auto simp: parent_entry_def split: if_splits)
  show "(current_path st \<noteq> ''/'' \<and> e = parent_entry (current_path st) \<and> size_b e = 0) \<or>
     (\<exists>info. os_stat sy (world st) (full_path e) = Some info \<and> size_b e = st_size info)"
  proof (cases "os_listdir sy (world st) (current_path st)")
    case (Inl err)
    with e have "e \<in> set ?base" by (simp add: files_refresh_files)
    then show ?thesis using base by blast
  next
    case (Inr names)
    with e have "e \<in> set (scan_dir sy (world st) (current_path st) (show_hidden st) names ?base)"
      by (simp add: files_refresh_files set_sort_tail)
    from scan_dir_member [OF this] base show ?thesis by blast
  qed
qed

theorem refresh_files_sizes_witness:
  "files (refresh_files demo_sys (demo_start ''/home/u'')) ! 2 \<in>
     set (files (refresh_files demo_sys (demo_start ''/home/u''))) \<and>
   full_path (files (refresh_files demo_sys (demo_start ''/home/u'')) ! 2) = ''/home/u/readme.txt'' \<and>
   (\<exists>info. os_stat demo_sys demo_tree ''/home/u/readme.txt'' = Some info \<and> st_size info = 120 \<and>
      size_b (files (refresh_files demo_sys (demo_start ''/home/u'')) ! 2) = st_size info)"
proof -
  let ?e = "files (refresh_files demo_sys (demo_start ''/home/u'')) ! 2"
  have mem: "?e \<in> set (files (refresh_files demo_sys (demo_start ''/home/u'')))"
    unfolding demo_home_refresh unfolding demo_home by simp
  have fp: "full_path ?e = ''/home/u/readme.txt''"
    unfolding demo_home_refresh unfolding demo_home by simp
  have np: "?e \<noteq> parent_entry (current_path (demo_start ''/home/u''))"
    unfolding demo_home_refresh unfolding demo_home by (simp add: parent_entry_def)
  have w: "world (demo_start ''/home/u'') = demo_tree"
    by (simp add: demo_home)
  have s: "os_stat demo_sys demo_tree ''/home/u/readme.txt'' =
      Some \<lparr>st_size = 120, st_mtime = 1, st_mode = 33188\<rparr>"
    by (simp add: demo_sys_def demo_stat_def demo_tree_def)
  from refresh_files_sizes [of demo_sys "demo_start ''/home/u''"] mem np
  have "\<exists>info. os_stat demo_sys (world (demo_start ''/home/u'')) (full_path ?e) = Some info \<and>
      size_b ?e = st_size info"
    by blast
  with mem fp w s show ?thesis by auto
qed

section \<open>Paste and delete\<close>

lemma refresh_files_keeps_error:
  "message_is_error st \<Longrightarrow> message_is_error (refresh_files sy st)"
  by (simp add: refresh_files_def show_message_def Let_def split: sum.splits)

lemma files_refresh_files_cong:
  "world a = world b \<Longrightarrow> current_path a = current_path b \<Longrightarrow> show_hidden a = show_hidden b \<Longrightarrow>
     files (refresh_files sy a) = files (refresh_files sy b)"
  by (simp add: files_refresh_files split: sum.splits)

lemma paste_loop_single: "paste_loop sy [src] st = paste_one sy src st"
  by simp

text \<open>
  Claim C5. With an empty clipboard, paste shows the error message \<open>Clipboard is empty\<close>
  and changes nothing else, so neither the clipboard nor the listing. With a clipboard
  that is not empty, the clipboard is empty afterwards and the listing is the one
  \<open>refresh_files\<close> computes after the paste, whether the paste worked or not: when the
  move or the copy of the path \<open>src\<close> succeeds, the state is refreshed with a message of
  success, and when it fails with the error \<open>e\<close>, the state is refreshed with \<open>e\<close> as an
  error message and the clipboard is emptied all the same.
\<close>

theorem paste_files_clears_clipboard:
  "(clipboard st = [] \<longrightarrow>
      paste_files sy st = st\<lparr>message := ''Clipboard is empty'', message_is_error := True\<rparr>) \<and>
   (clipboard st \<noteq> [] \<longrightarrow>
      clipboard (paste_files sy st) = [] \<and>
      files (paste_files sy st) = files (refresh_files sy (paste_loop sy (clipboard st) st))) \<and>
   (clipboard st = [src] \<and> paste_op sy src st = (None, w) \<longrightarrow>
      paste_files sy st =
        refresh_files sy
          (st\<lparr>world := w, clipboard := [],
              message := (if clipboard_is_cut st then ''Moved: '' else ''Copied: '') @ basename src,
              message_is_error := False\<rparr>)) \<and>
   (clipboard st = [src] \<and> paste_op sy src st = (Some e, w) \<longrightarrow>
      paste_files sy st =
        refresh_files sy
          (st\<lparr>world := w, clipboard := [], message := ''Error: '' @ e,
              message_is_error := True\<rparr>) \<and>
      message_is_error (paste_files sy st))"
proof (intro conjI impI)
  assume "clipboard st = []"
  then show "paste_files sy st = st\<lparr>message := ''Clipboard is empty'', message_is_error := True\<rparr>"
    by (simp add: paste_files_def show_message_def)
next
  assume ne: "clipboard st \<noteq> []"
  then show "clipboard (paste_files sy st) = []"
    by (simp add: paste_files_def refresh_files_frame)
  from ne show "files (paste_files sy st) =
      files (refresh_files sy (paste_loop sy (clipboard st) st))"
    unfolding paste_files_def by (simp add: files_refresh_files split: sum.splits)
next
  assume "clipboard st = [src] \<and> paste_op sy src st = (None, w)"
  then show "paste_files sy st =
      refresh_files sy
        (st\<lparr>world := w, clipboard := [],
            message := (if clipboard_is_cut st then ''Moved: '' else ''Copied: '') @ basename src,
            message_is_error := False\<rparr>)"
    by (cases st) (simp add: paste_files_def paste_one_def show_message_def)
next
  assume fail: "clipboard st = [src] \<and> paste_op sy src st = (Some e, w)"
  then show eq: "paste_files sy st =
      refresh_files sy
        (st\<lparr>world := w, clipboard := [], message := ''Error: '' @ e, message_is_error := True\<rparr>)"
    by (cases st) (simp add: paste_files_def paste_one_def show_message_def)
  show "message_is_error (paste_files sy st)"
    unfolding eq by (rule refresh_files_keeps_error) simp
qed

theorem paste_files_clears_clipboard_witness:
  "clipboard (demo_start ''/home/u'') = [] \<and>
   paste_files demo_sys (demo_start ''/home/u'') =
     (demo_start ''/home/u'')\<lparr>message := ''Clipboard is empty'', message_is_error := True\<rparr> \<and>
   clipboard ((demo_start ''/'')\<lparr>clipboard := [''/home/u/readme.txt''], clipboard_is_cut := True\<rparr>)
     = [''/home/u/readme.txt''] \<and>
   fst (paste_op demo_sys ''/home/u/readme.txt''
     ((demo_start ''/'')\<lparr>clipboard := [''/home/u/readme.txt''], clipboard_is_cut := True\<rparr>)) = None \<and>
   clipboard (paste_files demo_sys
     ((demo_start ''/'')\<lparr>clipboard := [''/home/u/readme.txt''], clipboard_is_cut := True\<rparr>)) = [] \<and>
   message (paste_files demo_sys
     ((demo_start ''/'')\<lparr>clipboard := [''/home/u/readme.txt''], clipboard_is_cut := True\<rparr>))
     = ''Moved: readme.txt'' \<and>
   clipboard ((demo_start ''/'')\<lparr>clipboard := [''/home/u/readme.txt''], clipboard_is_cut := False\<rparr>)
     = [''/home/u/readme.txt''] \<and>
   paste_op demo_sys ''/home/u/readme.txt''
     ((demo_start ''/'')\<lparr>clipboard := [''/home/u/readme.txt''], clipboard_is_cut := False\<rparr>)
     = (Some ''[Errno 2] No such file or directory'', demo_tree) \<and>
   clipboard (paste_files demo_sys
     ((demo_start ''/'')\<lparr>clipboard := [''/home/u/readme.txt''], clipboard_is_cut := False\<rparr>)) = [] \<and>
   message_is_error (paste_files demo_sys
     ((demo_start ''/'')\<lparr>clipboard := [''/home/u/readme.txt''], clipboard_is_cut := False\<rparr>))"
proof -
  let ?cut = "(demo_start ''/'')\<lparr>clipboard := [''/home/u/readme.txt''], clipboard_is_cut := True\<rparr>"
  let ?copy = "(demo_start ''/'')\<lparr>clipboard := [''/home/u/readme.txt''], clipboard_is_cut := False\<rparr>"
  let ?w = "snd (paste_op demo_sys ''/home/u/readme.txt'' ?cut)"
  have empty: "clipboard (demo_start ''/home/u'') = []"
    by (simp add: demo_home)
  have 5: "fst (paste_op demo_sys ''/home/u/readme.txt'' ?cut) = None"
    unfolding demo_root by (simp add: paste_op_def str_defs demo_defs)
  then have moved: "paste_op demo_sys ''/home/u/readme.txt'' ?cut = (None, ?w)"
    by (simp add: prod_eq_iff)
  have failed: "paste_op demo_sys ''/home/u/readme.txt'' ?copy =
      (Some ''[Errno 2] No such file or directory'', demo_tree)"
    unfolding demo_root by (simp add: paste_op_def str_defs demo_sys_def)
  have cut_msg: "message (paste_files demo_sys ?cut) = ''Moved: readme.txt''"
    unfolding demo_root
    by (simp add: paste_files_def paste_one_def paste_op_def str_defs demo_defs listing_defs)
  have cut_clip: "clipboard ?cut = [''/home/u/readme.txt'']"
    by simp
  have copy_clip: "clipboard ?copy = [''/home/u/readme.txt'']"
    by simp
  from paste_files_clears_clipboard
    [where st = "demo_start ''/home/u''" and sy = demo_sys and src = "[]" and w = demo_tree
      and e = "[]"] empty
  have 1: "paste_files demo_sys (demo_start ''/home/u'') =
      (demo_start ''/home/u'')\<lparr>message := ''Clipboard is empty'', message_is_error := True\<rparr>"
    by blast
  from cut_clip have "clipboard ?cut \<noteq> []"
    by simp
  with paste_files_clears_clipboard
    [where st = ?cut and sy = demo_sys and src = "''/home/u/readme.txt''" and w = ?w
      and e = "[]"]
  have 2: "clipboard (paste_files demo_sys ?cut) = []"
    by blast
  from paste_files_clears_clipboard
    [where st = ?copy and sy = demo_sys and src = "''/home/u/readme.txt''" and w = demo_tree
      and e = "''[Errno 2] No such file or directory''"] failed copy_clip
  have 3: "paste_files demo_sys ?copy =
      refresh_files demo_sys
        (?copy\<lparr>world := demo_tree, clipboard := [],
           message := ''Error: '' @ ''[Errno 2] No such file or directory'',
           message_is_error := True\<rparr>) \<and>
      message_is_error (paste_files demo_sys ?copy)"
    by blast
  then have 4: "clipboard (paste_files demo_sys ?copy) = []"
    by (simp add: refresh_files_frame)
  from empty 1 cut_clip 5 2 cut_msg copy_clip failed 4 3 show ?thesis
    by blast
qed

text \<open>
  Claim C6. With \<open>file\<close> the selected entry: delete refuses the \<open>..\<close> entry (nothing
  changes); for a directory that \<open>os.listdir\<close> shows not to be empty it sets the error
  message \<open>Directory not empty!\<close> and changes nothing else, so the file system and the
  listing stay as they are; for anything that is not a directory it calls \<open>os.unlink\<close>
  with no condition, and when that call or the \<open>os.rmdir\<close> of an empty directory
  succeeds, the listing is refreshed in the new file system and the selection becomes
  the minimum of the old selection and the last index of the new listing.
\<close>

theorem delete_file_guards:
  assumes "py_get (files st) (selected_idx st) = Some file"
  shows
   "(name file = ''..'' \<longrightarrow> delete_file sy st = Inr st) \<and>
    (name file \<noteq> ''..'' \<and> is_dir file \<and>
       os_listdir sy (world st) (full_path file) = Inr (x # xs) \<longrightarrow>
       delete_file sy st =
         Inr (st\<lparr>message := ''Directory not empty!'', message_is_error := True\<rparr>)) \<and>
    (name file \<noteq> ''..'' \<and> \<not> is_dir file \<and>
       os_unlink sy (world st) (full_path file) = (Some e, w) \<longrightarrow>
       delete_file sy st =
         Inr (st\<lparr>world := w, message := ''Error: '' @ e, message_is_error := True\<rparr>)) \<and>
    (name file \<noteq> ''..'' \<and>
       (\<not> is_dir file \<and> os_unlink sy (world st) (full_path file) = (None, w) \<or>
        is_dir file \<and> os_listdir sy (world st) (full_path file) = Inr [] \<and>
          os_rmdir sy (world st) (full_path file) = (None, w)) \<longrightarrow>
       (\<exists>st1. delete_file sy st = Inr st1 \<and> world st1 = w \<and>
          current_path st1 = current_path st \<and>
          files st1 = files (refresh_files sy (st\<lparr>world := w\<rparr>)) \<and>
          selected_idx st1 = min (selected_idx st) (int (length (files st1)) - 1)))"
proof -
  from assms have lt: "selected_idx st < int (length (files st))"
    by (rule py_get_Some_less)
  have done_: "\<exists>st1. delete_done sy (show_message m False (st\<lparr>world := w\<rparr>)) = st1 \<and>
      world st1 = w \<and> current_path st1 = current_path st \<and>
      files st1 = files (refresh_files sy (st\<lparr>world := w\<rparr>)) \<and>
      selected_idx st1 = min (selected_idx st) (int (length (files st1)) - 1)" for m
    by (simp add: delete_done_def Let_def refresh_files_frame show_message_def
        files_refresh_files split: sum.splits)
  show ?thesis
  proof (intro conjI impI)
    assume "name file = ''..''"
    with assms lt show "delete_file sy st = Inr st"
      by (simp add: delete_file_def)
  next
    assume "name file \<noteq> ''..'' \<and> is_dir file \<and>
      os_listdir sy (world st) (full_path file) = Inr (x # xs)"
    with assms lt show "delete_file sy st =
        Inr (st\<lparr>message := ''Directory not empty!'', message_is_error := True\<rparr>)"
      by (simp add: delete_file_def show_message_def)
  next
    assume "name file \<noteq> ''..'' \<and> \<not> is_dir file \<and>
      os_unlink sy (world st) (full_path file) = (Some e, w)"
    with assms lt show "delete_file sy st =
        Inr (st\<lparr>world := w, message := ''Error: '' @ e, message_is_error := True\<rparr>)"
      by (simp add: delete_file_def show_message_def)
  next
    assume ok: "name file \<noteq> ''..'' \<and>
       (\<not> is_dir file \<and> os_unlink sy (world st) (full_path file) = (None, w) \<or>
        is_dir file \<and> os_listdir sy (world st) (full_path file) = Inr [] \<and>
          os_rmdir sy (world st) (full_path file) = (None, w))"
    then have "\<exists>m. delete_file sy st = Inr (delete_done sy (show_message m False (st\<lparr>world := w\<rparr>)))"
      using assms lt by (auto simp: delete_file_def)
    then obtain m where
      "delete_file sy st = Inr (delete_done sy (show_message m False (st\<lparr>world := w\<rparr>)))" ..
    with done_ [of m] show "\<exists>st1. delete_file sy st = Inr st1 \<and> world st1 = w \<and>
          current_path st1 = current_path st \<and>
          files st1 = files (refresh_files sy (st\<lparr>world := w\<rparr>)) \<and>
          selected_idx st1 = min (selected_idx st) (int (length (files st1)) - 1)"
      by simp
  qed
qed

theorem delete_file_guards_witness:
  "py_get (files (demo_start ''/home/u'')) (selected_idx (demo_start ''/home/u'')) =
     Some (parent_entry ''/home/u'') \<and>
   delete_file demo_sys (demo_start ''/home/u'') = Inr (demo_start ''/home/u'') \<and>
   name (files (demo_start ''/home/u'') ! 1) = ''docs'' \<and>
   os_listdir demo_sys demo_tree ''/home/u/docs'' = Inr [''a.txt''] \<and>
   delete_file demo_sys ((demo_start ''/home/u'')\<lparr>selected_idx := 1\<rparr>) =
     Inr ((demo_start ''/home/u'')
            \<lparr>selected_idx := 1, message := ''Directory not empty!'', message_is_error := True\<rparr>) \<and>
   name (files (demo_start ''/home/u'') ! 2) = ''readme.txt'' \<and>
   fst (os_unlink demo_sys demo_tree ''/home/u/readme.txt'') = None \<and>
   (\<exists>st1. delete_file demo_sys ((demo_start ''/home/u'')\<lparr>selected_idx := 2\<rparr>) = Inr st1 \<and>
      map name (files st1) = [''..'', ''docs''] \<and> selected_idx st1 = 1)"
proof -
  let ?s0 = "demo_start ''/home/u''"
  let ?s1 = "(demo_start ''/home/u'')\<lparr>selected_idx := 1\<rparr>"
  let ?s2 = "(demo_start ''/home/u'')\<lparr>selected_idx := 2\<rparr>"
  let ?docs = "files (demo_start ''/home/u'') ! 1"
  let ?readme = "files (demo_start ''/home/u'') ! 2"
  let ?w = "snd (os_unlink demo_sys demo_tree ''/home/u/readme.txt'')"
  have sel0: "py_get (files ?s0) (selected_idx ?s0) = Some (parent_entry ''/home/u'')"
    by (simp add: demo_home py_get_def parent_entry_def str_defs)
  have sel1: "py_get (files ?s1) (selected_idx ?s1) = Some ?docs"
    by (simp add: demo_home py_get_def)
  have sel2: "py_get (files ?s2) (selected_idx ?s2) = Some ?readme"
    by (simp add: demo_home py_get_def)
  have docs: "name ?docs = ''docs'' \<and> is_dir ?docs \<and> full_path ?docs = ''/home/u/docs''"
    by (simp add: demo_home)
  have readme: "name ?readme = ''readme.txt'' \<and> \<not> is_dir ?readme \<and>
      full_path ?readme = ''/home/u/readme.txt''"
    by (simp add: demo_home)
  have world: "world ?s1 = demo_tree \<and> world ?s2 = demo_tree"
    by (simp add: demo_home)
  have listing: "os_listdir demo_sys demo_tree ''/home/u/docs'' = Inr [''a.txt'']"
    by (simp add: demo_sys_def demo_listdir_def demo_tree_def)
  have unlinked: "fst (os_unlink demo_sys demo_tree ''/home/u/readme.txt'') = None"
    by (simp add: demo_sys_def demo_unlink_def demo_tree_def)
  have after: "map name (files (refresh_files demo_sys (?s2\<lparr>world := ?w\<rparr>))) = [''..'', ''docs'']"
    unfolding demo_home by (simp add: str_defs demo_defs listing_defs)
  from delete_file_guards [OF sel0, where sy = demo_sys and x = "[]" and xs = "[]"
      and e = "[]" and w = demo_tree]
  have 0: "delete_file demo_sys ?s0 = Inr ?s0"
    by (simp add: parent_entry_def)
  from delete_file_guards [OF sel1, where sy = demo_sys and x = "''a.txt''" and xs = "[]"
      and e = "[]" and w = demo_tree] docs world listing
  have 1: "delete_file demo_sys ?s1 =
      Inr (?s1\<lparr>message := ''Directory not empty!'', message_is_error := True\<rparr>)"
    by simp
  have hyp: "name ?readme \<noteq> ''..'' \<and>
      (\<not> is_dir ?readme \<and> os_unlink demo_sys (world ?s2) (full_path ?readme) = (None, ?w) \<or>
       is_dir ?readme \<and> os_listdir demo_sys (world ?s2) (full_path ?readme) = Inr [] \<and>
         os_rmdir demo_sys (world ?s2) (full_path ?readme) = (None, ?w))"
    using readme world unlinked by (simp add: prod_eq_iff)
  from delete_file_guards [OF sel2, where sy = demo_sys and x = "[]" and xs = "[]"
      and e = "[]" and w = ?w] hyp
  have "\<exists>st1. delete_file demo_sys ?s2 = Inr st1 \<and>
      files st1 = files (refresh_files demo_sys (?s2\<lparr>world := ?w\<rparr>)) \<and>
      selected_idx st1 = min (selected_idx ?s2) (int (length (files st1)) - 1)"
    by blast
  then obtain st1 where st1: "delete_file demo_sys ?s2 = Inr st1"
    and f1: "files st1 = files (refresh_files demo_sys (?s2\<lparr>world := ?w\<rparr>))"
    and i1: "selected_idx st1 = min (selected_idx ?s2) (int (length (files st1)) - 1)"
    by blast
  from f1 after have names: "map name (files st1) = [''..'', ''docs'']"
    by simp
  then have "length (files st1) = 2"
    by (metis length_map length_Cons list.size(3) numeral_2_eq_2)
  with i1 have idx: "selected_idx st1 = 1"
    by simp
  have 2: "\<exists>st1. delete_file demo_sys ?s2 = Inr st1 \<and>
      map name (files st1) = [''..'', ''docs''] \<and> selected_idx st1 = 1"
  proof (intro exI conjI)
    show "delete_file demo_sys ?s2 = Inr st1" by (rule st1)
    show "map name (files st1) = [''..'', ''docs'']" by (rule names)
    show "selected_idx st1 = 1" by (rule idx)
  qed
  from docs have d: "name ?docs = ''docs''" ..
  from readme have r: "name ?readme = ''readme.txt''" ..
  show ?thesis
  proof (intro conjI)
    show "py_get (files ?s0) (selected_idx ?s0) = Some (parent_entry ''/home/u'')" by (rule sel0)
    show "delete_file demo_sys ?s0 = Inr ?s0" by (rule 0)
    show "name ?docs = ''docs''" by (rule d)
    show "os_listdir demo_sys demo_tree ''/home/u/docs'' = Inr [''a.txt'']" by (rule listing)
    show "delete_file demo_sys ?s1 =
      Inr ((demo_start ''/home/u'')
            \<lparr>selected_idx := 1, message := ''Directory not empty!'', message_is_error := True\<rparr>)"
      by (rule 1)
    show "name ?readme = ''readme.txt''" by (rule r)
    show "fst (os_unlink demo_sys demo_tree ''/home/u/readme.txt'') = None" by (rule unlinked)
    show "\<exists>st1. delete_file demo_sys ?s2 = Inr st1 \<and>
      map name (files st1) = [''..'', ''docs''] \<and> selected_idx st1 = 1" by (rule 2)
  qed
qed

section \<open>Searching\<close>

lemma startswith_iff: "startswith s p \<longleftrightarrow> (\<exists>b. s = p @ b)"
  unfolding startswith_def
proof
  assume "take (length p) s = p"
  then have "s = p @ drop (length p) s"
    by (metis append_take_drop_id)
  then show "\<exists>b. s = p @ b" ..
next
  assume "\<exists>b. s = p @ b"
  then show "take (length p) s = p" by auto
qed

lemma contains_iff: "contains p s \<longleftrightarrow> (\<exists>a b. s = a @ p @ b)"
proof (induction s)
  case Nil
  then show ?case by auto
next
  case (Cons c cs)
  show ?case
  proof
    assume "contains p (c # cs)"
    then consider "startswith (c # cs) p" | "contains p cs" by auto
    then show "\<exists>a b. c # cs = a @ p @ b"
    proof cases
      case 1
      then obtain b where "c # cs = p @ b" by (auto simp: startswith_iff)
      then have "c # cs = [] @ p @ b" by simp
      then show ?thesis by blast
    next
      case 2
      with Cons.IH obtain a b where "cs = a @ p @ b" by blast
      then have "c # cs = (c # a) @ p @ b" by simp
      then show ?thesis by blast
    qed
  next
    assume "\<exists>a b. c # cs = a @ p @ b"
    then obtain a b where ab: "c # cs = a @ p @ b" by blast
    show "contains p (c # cs)"
    proof (cases a)
      case Nil
      with ab have "startswith (c # cs) p" by (auto simp: startswith_iff)
      then show ?thesis by simp
    next
      case (Cons x a')
      with ab have "cs = a' @ p @ b" by simp
      with Cons.IH have "contains p cs" by blast
      then show ?thesis by simp
    qed
  qed
qed

text \<open>
  What \<open>ascii_lower\<close> does: it sends each of the 26 capital letters to its small
  letter, leaves every other character alone, and lowering twice is lowering once.
\<close>

lemma ascii_lower_letters:
  "ascii_lower ''ABCDEFGHIJKLMNOPQRSTUVWXYZ'' = ''abcdefghijklmnopqrstuvwxyz''"
  by (simp add: ascii_lower_def ascii_lower_char_def)

lemma ascii_lower_other:
  "c \<notin> set ''ABCDEFGHIJKLMNOPQRSTUVWXYZ'' \<Longrightarrow> ascii_lower_char c = c"
  by (simp add: ascii_lower_char_def)

lemma ascii_lower_char_idem: "ascii_lower_char (ascii_lower_char c) = ascii_lower_char c"
proof (cases "c \<in> set ''ABCDEFGHIJKLMNOPQRSTUVWXYZ''")
  case True
  then show ?thesis
    by (auto simp: ascii_lower_char_def)
next
  case False
  then show ?thesis
    by (simp add: ascii_lower_other)
qed

lemma ascii_lower_idem: "ascii_lower (ascii_lower s) = ascii_lower s"
  by (simp add: ascii_lower_def ascii_lower_char_idem)

lemma match_indices_Cons:
  "match_indices low q (f # fs) =
     (if contains (low q) (low (name f)) then [0] else []) @ map Suc (match_indices low q fs)"
proof -
  have "[0..<length (f # fs)] = 0 # map Suc [0..<length fs]"
    by (simp add: upt_conv_Cons map_Suc_upt del: upt_Suc)
  then show ?thesis
    by (simp add: match_indices_def filter_map comp_def del: upt_Suc)
qed

lemma find_matches_take:
  "length ms < 5 \<Longrightarrow>
     find_matches sy (str_lower sy q) fs i ms =
       take 5 (ms @ map (\<lambda>k. i + k) (match_indices (str_lower sy) q fs))"
proof (induction fs arbitrary: i ms)
  case Nil
  then show ?case by (simp add: match_indices_def)
next
  case (Cons f fs)
  show ?case
  proof (cases "contains (str_lower sy q) (str_lower sy (name f))")
    case False
    with Cons.IH [OF Cons.prems, of "Suc i"] show ?thesis
      by (simp add: match_indices_Cons comp_def)
  next
    case True
    show ?thesis
    proof (cases "length ms = 4")
      case True
      with \<open>contains (str_lower sy q) (str_lower sy (name f))\<close> show ?thesis
        by (simp add: match_indices_Cons)
    next
      case False
      with Cons.prems have "length (ms @ [i]) < 5" by simp
      from Cons.IH [OF this, of "Suc i"] True False Cons.prems show ?thesis
        by (simp add: match_indices_Cons comp_def)
    qed
  qed
qed

lemma find_matches_eq:
  "find_matches sy (str_lower sy q) fs 0 [] = take 5 (match_indices (str_lower sy) q fs)"
  by (simp add: find_matches_take)

lemma hd_match_indices:
  "match_indices low q fs \<noteq> [] \<Longrightarrow>
     hd (match_indices low q fs) < length fs \<and>
     contains (low q) (low (name (fs ! hd (match_indices low q fs)))) \<and>
     (\<forall>j < hd (match_indices low q fs). \<not> contains (low q) (low (name (fs ! j))))"
proof (induction fs)
  case Nil
  then show ?case by (simp add: match_indices_def)
next
  case (Cons f fs)
  show ?case
  proof (cases "contains (low q) (low (name f))")
    case True
    then show ?thesis by (simp add: match_indices_Cons)
  next
    case False
    with Cons.prems have ne: "match_indices low q fs \<noteq> []"
      by (simp add: match_indices_Cons)
    with False have hd: "hd (match_indices low q (f # fs)) = Suc (hd (match_indices low q fs))"
      by (simp add: match_indices_Cons hd_map)
    from Cons.IH [OF ne] False show ?thesis
      unfolding hd by (auto simp: less_Suc_eq_0_disj)
  qed
qed

text \<open>
  The matches depend on the pattern and on the names through their lowerings only: a
  pattern and a listing that differ from others in letter case alone have the same
  matches.
\<close>

lemma match_indices_case:
  assumes "low p = low q" and "map (\<lambda>x. low (name x)) fs = map (\<lambda>x. low (name x)) gs"
  shows "match_indices low p fs = match_indices low q gs"
proof -
  from assms(2) have len: "length fs = length gs"
    by (rule map_eq_imp_length_eq)
  have nth: "low (name (fs ! i)) = low (name (gs ! i))" if "i < length fs" for i
  proof -
    from assms(2) have "map (\<lambda>x. low (name x)) fs ! i = map (\<lambda>x. low (name x)) gs ! i"
      by simp
    with that len show ?thesis
      by simp
  qed
  show ?thesis
    unfolding match_indices_def len [symmetric] assms(1)
    by (rule filter_cong) (auto simp: nth)
qed

text \<open>
  Claim C7. \<open>search_file\<close> lowers the pattern and each name with \<open>str.lower()\<close> and
  looks for the lowered pattern as a substring of the lowered name, in the order of the
  listing, keeping the first five matches. When no name matches, it shows the error
  message \<open>No matches found\<close> and changes nothing else. Otherwise the selection becomes
  the index of the first match, the top of the window becomes that index minus 2, or 0
  when that is negative, and the message is \<open>Found n matches\<close> where \<open>n\<close> is the number
  of matches, at most 5. Letter case is ignored: two patterns with the same lowering
  give the same result.
\<close>

theorem search_file_first_match:
  "search_file sy pattern st =
     (if match_indices (str_lower sy) pattern (files st) = []
      then st\<lparr>message := ''No matches found'', message_is_error := True\<rparr>
      else st\<lparr>selected_idx := int (hd (match_indices (str_lower sy) pattern (files st))),
              top_idx := max 0 (int (hd (match_indices (str_lower sy) pattern (files st))) - 2),
              message :=
                ''Found '' @
                str_nat (min 5 (length (match_indices (str_lower sy) pattern (files st)))) @
                '' matches'',
              message_is_error := False\<rparr>) \<and>
   (str_lower sy other = str_lower sy pattern \<longrightarrow>
      search_file sy other st = search_file sy pattern st)"
proof (intro conjI impI)
  let ?found = "match_indices (str_lower sy) pattern (files st)"
  show "search_file sy pattern st =
     (if ?found = []
      then st\<lparr>message := ''No matches found'', message_is_error := True\<rparr>
      else st\<lparr>selected_idx := int (hd ?found), top_idx := max 0 (int (hd ?found) - 2),
              message := ''Found '' @ str_nat (min 5 (length ?found)) @ '' matches'',
              message_is_error := False\<rparr>)"
  proof (cases "?found = []")
    case True
    then show ?thesis
      by (simp add: search_file_def find_matches_eq show_message_def)
  next
    case False
    then have "take 5 ?found \<noteq> []"
      by simp
    moreover have "hd (take 5 ?found) = hd ?found"
      by (simp add: hd_take)
    moreover have "length (take 5 ?found) = min 5 (length ?found)"
      by (simp add: min.commute)
    ultimately show ?thesis
      using False by (simp add: search_file_def find_matches_eq show_message_def Let_def)
  qed
next
  assume "str_lower sy other = str_lower sy pattern"
  then show "search_file sy other st = search_file sy pattern st"
    by (simp add: search_file_def)
qed

lemma mixed_listing:
  "files mixed_start =
     [\<lparr>name = ''..'', is_dir = True, size_b = 0, mtime = 0, mode = [],
       full_path = ''/work/..''\<rparr>,
      \<lparr>name = ''src'', is_dir = True, size_b = 4096, mtime = 1, mode = ''drwxr-xr-x'',
       full_path = ''/work/src''\<rparr>,
      \<lparr>name = ''a.c'', is_dir = False, size_b = 1, mtime = 1, mode = ''-rw-r--r--'',
       full_path = ''/work/a.c''\<rparr>,
      \<lparr>name = ''B.c'', is_dir = False, size_b = 2, mtime = 1, mode = ''-rw-r--r--'',
       full_path = ''/work/B.c''\<rparr>,
      \<lparr>name = ''c.h'', is_dir = False, size_b = 3, mtime = 1, mode = ''-rw-r--r--'',
       full_path = ''/work/c.h''\<rparr>,
      \<lparr>name = ''Makefile'', is_dir = False, size_b = 30, mtime = 1, mode = ''-rw-r--r--'',
       full_path = ''/work/Makefile''\<rparr>,
      \<lparr>name = ''notes.TXT'', is_dir = False, size_b = 20, mtime = 1, mode = ''-rw-r--r--'',
       full_path = ''/work/notes.TXT''\<rparr>,
      \<lparr>name = ''README.md'', is_dir = False, size_b = 40, mtime = 1, mode = ''-rw-r--r--'',
       full_path = ''/work/README.md''\<rparr>]"
  by (simp add: str_defs demo_defs listing_defs)

theorem search_file_first_match_witness:
  "map name (files (demo_start ''/home/u'')) = [''..'', ''docs'', ''readme.txt''] \<and>
   search_file demo_sys ''doc'' (demo_start ''/home/u'') =
     (demo_start ''/home/u'')
       \<lparr>selected_idx := 1, top_idx := 0, message := ''Found 1 matches'',
        message_is_error := False\<rparr> \<and>
   search_file demo_sys ''DOC'' (demo_start ''/home/u'') =
     search_file demo_sys ''doc'' (demo_start ''/home/u'') \<and>
   search_file demo_sys ''xyz'' (demo_start ''/home/u'') =
     (demo_start ''/home/u'')\<lparr>message := ''No matches found'', message_is_error := True\<rparr> \<and>
   map name (files mixed_start) =
     [''..'', ''src'', ''a.c'', ''B.c'', ''c.h'', ''Makefile'', ''notes.TXT'', ''README.md''] \<and>
   search_file demo_sys ''readme'' mixed_start =
     mixed_start\<lparr>selected_idx := 7, top_idx := 5, message := ''Found 1 matches'',
                 message_is_error := False\<rparr> \<and>
   search_file demo_sys ''.TxT'' mixed_start =
     mixed_start\<lparr>selected_idx := 6, top_idx := 4, message := ''Found 1 matches'',
                 message_is_error := False\<rparr> \<and>
   search_file demo_sys ''E'' mixed_start =
     mixed_start\<lparr>selected_idx := 5, top_idx := 3, message := ''Found 3 matches'',
                 message_is_error := False\<rparr> \<and>
   search_file demo_sys ''.'' mixed_start =
     mixed_start\<lparr>selected_idx := 0, top_idx := 0, message := ''Found 5 matches'',
                 message_is_error := False\<rparr>"
proof -
  have low: "str_lower demo_sys = ascii_lower"
    by (simp add: demo_sys_def)
  have names: "map name (files (demo_start ''/home/u'')) = [''..'', ''docs'', ''readme.txt'']"
    by (simp add: demo_home)
  have mixed: "map name (files mixed_start) =
     [''..'', ''src'', ''a.c'', ''B.c'', ''c.h'', ''Makefile'', ''notes.TXT'', ''README.md'']"
    by (simp add: mixed_listing)
  have doc: "match_indices (str_lower demo_sys) ''doc'' (files (demo_start ''/home/u'')) = [1]"
    unfolding low by (simp add: demo_home match_indices_def str_defs)
  have xyz: "match_indices (str_lower demo_sys) ''xyz'' (files (demo_start ''/home/u'')) = []"
    unfolding low by (simp add: demo_home match_indices_def str_defs)
  have readme: "match_indices (str_lower demo_sys) ''readme'' (files mixed_start) = [7]"
    unfolding low mixed_listing by (simp add: match_indices_def str_defs)
  have ext: "match_indices (str_lower demo_sys) ''.TxT'' (files mixed_start) = [6]"
    unfolding low mixed_listing by (simp add: match_indices_def str_defs)
  have e: "match_indices (str_lower demo_sys) ''E'' (files mixed_start) = [5, 6, 7]"
    unfolding low mixed_listing by (simp add: match_indices_def str_defs)
  have dot: "match_indices (str_lower demo_sys) ''.'' (files mixed_start) = [0, 2, 3, 4, 6, 7]"
    unfolding low mixed_listing by (simp add: match_indices_def str_defs)
  have same: "str_lower demo_sys ''DOC'' = str_lower demo_sys ''doc''"
    unfolding low by (simp add: str_defs)
  have one: "str_nat 1 = ''1''" and three: "str_nat 3 = ''3''" and five: "str_nat 5 = ''5''"
    by (simp_all add: str_nat.simps)
  from search_file_first_match [of demo_sys "''doc''" "demo_start ''/home/u''" "''DOC''"] doc one
  have 1: "search_file demo_sys ''doc'' (demo_start ''/home/u'') =
     (demo_start ''/home/u'')
       \<lparr>selected_idx := 1, top_idx := 0, message := ''Found 1 matches'',
        message_is_error := False\<rparr>"
    by simp
  from search_file_first_match [of demo_sys "''doc''" "demo_start ''/home/u''" "''DOC''"] same
  have 2: "search_file demo_sys ''DOC'' (demo_start ''/home/u'') =
     search_file demo_sys ''doc'' (demo_start ''/home/u'')"
    by blast
  from search_file_first_match [of demo_sys "''xyz''" "demo_start ''/home/u''" "''xyz''"] xyz
  have 3: "search_file demo_sys ''xyz'' (demo_start ''/home/u'') =
     (demo_start ''/home/u'')\<lparr>message := ''No matches found'', message_is_error := True\<rparr>"
    by simp
  from search_file_first_match [of demo_sys "''readme''" mixed_start "''readme''"] readme one
  have 4: "search_file demo_sys ''readme'' mixed_start =
     mixed_start\<lparr>selected_idx := 7, top_idx := 5, message := ''Found 1 matches'',
                 message_is_error := False\<rparr>"
    by simp
  from search_file_first_match [of demo_sys "''.TxT''" mixed_start "''.TxT''"] ext one
  have 5: "search_file demo_sys ''.TxT'' mixed_start =
     mixed_start\<lparr>selected_idx := 6, top_idx := 4, message := ''Found 1 matches'',
                 message_is_error := False\<rparr>"
    by simp
  have len3: "min 5 (length [5::nat, 6, 7]) = 3"
    and len5: "min 5 (length [0::nat, 2, 3, 4, 6, 7]) = 5"
    by simp_all
  from search_file_first_match [of demo_sys "''E''" mixed_start "''E''"]
  have 6: "search_file demo_sys ''E'' mixed_start =
     mixed_start\<lparr>selected_idx := 5, top_idx := 3, message := ''Found 3 matches'',
                 message_is_error := False\<rparr>"
    unfolding e len3 three by simp
  from search_file_first_match [of demo_sys "''.''" mixed_start "''.''"]
  have 7: "search_file demo_sys ''.'' mixed_start =
     mixed_start\<lparr>selected_idx := 0, top_idx := 0, message := ''Found 5 matches'',
                 message_is_error := False\<rparr>"
    unfolding dot len5 five by simp
  show ?thesis
  proof (intro conjI)
    show "map name (files (demo_start ''/home/u'')) = [''..'', ''docs'', ''readme.txt'']"
      by (rule names)
    show "search_file demo_sys ''doc'' (demo_start ''/home/u'') =
     (demo_start ''/home/u'')
       \<lparr>selected_idx := 1, top_idx := 0, message := ''Found 1 matches'',
        message_is_error := False\<rparr>" by (rule 1)
    show "search_file demo_sys ''DOC'' (demo_start ''/home/u'') =
     search_file demo_sys ''doc'' (demo_start ''/home/u'')" by (rule 2)
    show "search_file demo_sys ''xyz'' (demo_start ''/home/u'') =
     (demo_start ''/home/u'')\<lparr>message := ''No matches found'', message_is_error := True\<rparr>"
      by (rule 3)
    show "map name (files mixed_start) =
     [''..'', ''src'', ''a.c'', ''B.c'', ''c.h'', ''Makefile'', ''notes.TXT'', ''README.md'']"
      by (rule mixed)
    show "search_file demo_sys ''readme'' mixed_start =
     mixed_start\<lparr>selected_idx := 7, top_idx := 5, message := ''Found 1 matches'',
                 message_is_error := False\<rparr>" by (rule 4)
    show "search_file demo_sys ''.TxT'' mixed_start =
     mixed_start\<lparr>selected_idx := 6, top_idx := 4, message := ''Found 1 matches'',
                 message_is_error := False\<rparr>" by (rule 5)
    show "search_file demo_sys ''E'' mixed_start =
     mixed_start\<lparr>selected_idx := 5, top_idx := 3, message := ''Found 3 matches'',
                 message_is_error := False\<rparr>" by (rule 6)
    show "search_file demo_sys ''.'' mixed_start =
     mixed_start\<lparr>selected_idx := 0, top_idx := 0, message := ''Found 5 matches'',
                 message_is_error := False\<rparr>" by (rule 7)
  qed
qed

section \<open>Renaming\<close>

lemma rfind_slash_none: "CHR ''/'' \<notin> set n \<Longrightarrow> rfind_slash n = 0"
  by (cases n) auto

lemma rfind_slash_le: "rfind_slash a \<le> length a"
  by (induction a) auto

lemma rfind_slash_append: "CHR ''/'' \<notin> set n \<Longrightarrow> rfind_slash (a @ n) = rfind_slash a"
  by (induction a) (auto simp: rfind_slash_none)

lemma dirname_append:
  assumes "CHR ''/'' \<notin> set n" and "CHR ''/'' \<notin> set m"
  shows "dirname (a @ n) = dirname (a @ m)"
proof -
  have "take (rfind_slash (a @ n)) (a @ n) = take (rfind_slash a) a"
    using assms(1) by (simp add: rfind_slash_append rfind_slash_le)
  moreover have "take (rfind_slash (a @ m)) (a @ m) = take (rfind_slash a) a"
    using assms(2) by (simp add: rfind_slash_append rfind_slash_le)
  ultimately show ?thesis
    by (simp add: dirname_def)
qed

lemma path_join_plain:
  "CHR ''/'' \<notin> set n \<Longrightarrow>
     path_join a n = (if a = [] \<or> endswith a ''/'' then a else a @ ''/'') @ n"
  by (cases n) (auto simp: path_join_def startswith_def)

lemma dirname_path_join:
  assumes "CHR ''/'' \<notin> set n" and "CHR ''/'' \<notin> set m"
  shows "dirname (path_join a n) = dirname (path_join a m)"
proof -
  let ?a = "if a = [] \<or> endswith a ''/'' then a else a @ ''/''"
  have jn: "path_join a n = ?a @ n"
    using assms(1) by (rule path_join_plain)
  have jm: "path_join a m = ?a @ m"
    using assms(2) by (rule path_join_plain)
  show ?thesis
    unfolding jn jm using assms by (rule dirname_append)
qed

text \<open>
  Claim C9 says that a rename never moves the entry out of its directory. It does when
  the new name has a slash in it: renaming \<open>/home/u/readme.txt\<close> to \<open>/bin/moved.txt\<close>
  succeeds on the example system, and afterwards the file is in \<open>/bin\<close> and no longer
  in \<open>/home/u\<close>. The new name \<open>../x\<close> likewise names a path in another directory.
\<close>

theorem rename_moves_counterexample:
  "py_get (files ((demo_start ''/home/u'')\<lparr>selected_idx := 2\<rparr>))
     (selected_idx ((demo_start ''/home/u'')\<lparr>selected_idx := 2\<rparr>)) =
     Some (files (demo_start ''/home/u'') ! 2) \<and>
   full_path (files (demo_start ''/home/u'') ! 2) = ''/home/u/readme.txt'' \<and>
   dirname (full_path (files (demo_start ''/home/u'') ! 2)) = ''/home/u'' \<and>
   dirname (rename_target ((demo_start ''/home/u'')\<lparr>selected_idx := 2\<rparr>) ''/bin/moved.txt'')
     = ''/bin'' \<and>
   dirname (rename_target ((demo_start ''/home/u'')\<lparr>selected_idx := 2\<rparr>) ''../x'')
     = ''/home/u/..'' \<and>
   (\<exists>st1. rename_file demo_sys ''/bin/moved.txt'' ((demo_start ''/home/u'')\<lparr>selected_idx := 2\<rparr>)
            = Inr st1 \<and>
      message st1 = ''Renamed to: /bin/moved.txt'' \<and>
      map name (files st1) = [''..'', ''docs''] \<and>
      os_stat demo_sys (world st1) ''/home/u/readme.txt'' = None \<and>
      os_stat demo_sys (world st1) ''/bin/moved.txt'' =
        Some \<lparr>st_size = 120, st_mtime = 1, st_mode = 33188\<rparr> \<and>
      os_listdir demo_sys (world st1) ''/bin'' = Inr [''moved.txt''])"
  unfolding demo_home
  by (simp add: rename_file_def rename_target_def py_get_def str_defs demo_defs listing_defs)

text \<open>
  Claim C9, amended. With \<open>file\<close> the selected entry: rename refuses the \<open>..\<close> entry
  (nothing changes); for any other entry the one change it makes to the file system is
  the \<open>os.rename\<close> of the entry's path to \<open>os.path.join(current_path, new_name)\<close>; and
  when neither the new name nor the entry's name has a slash in it, as is the case for
  the names of a listing, that path has the same parent directory as the entry's path.
\<close>

theorem rename_file_same_directory:
  assumes "py_get (files st) (selected_idx st) = Some file"
  shows
   "(name file = ''..'' \<longrightarrow> rename_file sy new_name st = Inr st) \<and>
    (name file \<noteq> ''..'' \<longrightarrow>
       (\<exists>st1. rename_file sy new_name st = Inr st1 \<and>
          world st1 =
            snd (os_rename sy (world st) (full_path file) (rename_target st new_name)))) \<and>
    (CHR ''/'' \<notin> set new_name \<and> CHR ''/'' \<notin> set (name file) \<and>
       full_path file = path_join (current_path st) (name file) \<longrightarrow>
       dirname (rename_target st new_name) = dirname (full_path file))"
proof (intro conjI impI)
  from assms have lt: "selected_idx st < int (length (files st))"
    by (rule py_get_Some_less)
  {
    assume "name file = ''..''"
    with assms lt show "rename_file sy new_name st = Inr st"
      by (simp add: rename_file_def)
  next
    assume "name file \<noteq> ''..''"
    with assms lt show "\<exists>st1. rename_file sy new_name st = Inr st1 \<and>
          world st1 =
            snd (os_rename sy (world st) (full_path file) (rename_target st new_name))"
      by (auto simp: rename_file_def show_message_def refresh_files_frame
          split: prod.splits option.splits)
  next
    assume "CHR ''/'' \<notin> set new_name \<and> CHR ''/'' \<notin> set (name file) \<and>
       full_path file = path_join (current_path st) (name file)"
    then show "dirname (rename_target st new_name) = dirname (full_path file)"
      by (simp add: rename_target_def dirname_path_join)
  }
qed

theorem rename_file_same_directory_witness:
  "py_get (files (demo_start ''/home/u'')) (selected_idx (demo_start ''/home/u'')) =
     Some (parent_entry ''/home/u'') \<and>
   rename_file demo_sys ''x'' (demo_start ''/home/u'') = Inr (demo_start ''/home/u'') \<and>
   py_get (files ((demo_start ''/home/u'')\<lparr>selected_idx := 2\<rparr>))
     (selected_idx ((demo_start ''/home/u'')\<lparr>selected_idx := 2\<rparr>)) =
     Some (files (demo_start ''/home/u'') ! 2) \<and>
   name (files (demo_start ''/home/u'') ! 2) = ''readme.txt'' \<and>
   full_path (files (demo_start ''/home/u'') ! 2) = ''/home/u/readme.txt'' \<and>
   rename_target ((demo_start ''/home/u'')\<lparr>selected_idx := 2\<rparr>) ''notes.txt'' =
     ''/home/u/notes.txt'' \<and>
   dirname (rename_target ((demo_start ''/home/u'')\<lparr>selected_idx := 2\<rparr>) ''notes.txt'') =
     dirname (full_path (files (demo_start ''/home/u'') ! 2)) \<and>
   (\<exists>st1. rename_file demo_sys ''notes.txt'' ((demo_start ''/home/u'')\<lparr>selected_idx := 2\<rparr>)
            = Inr st1 \<and>
      world st1 = snd (os_rename demo_sys demo_tree ''/home/u/readme.txt'' ''/home/u/notes.txt''))"
proof -
  let ?s0 = "demo_start ''/home/u''"
  let ?s2 = "(demo_start ''/home/u'')\<lparr>selected_idx := 2\<rparr>"
  let ?readme = "files (demo_start ''/home/u'') ! 2"
  have sel0: "py_get (files ?s0) (selected_idx ?s0) = Some (parent_entry ''/home/u'')"
    by (simp add: demo_home py_get_def parent_entry_def str_defs)
  have sel2: "py_get (files ?s2) (selected_idx ?s2) = Some ?readme"
    by (simp add: demo_home py_get_def)
  have nm: "name ?readme = ''readme.txt''"
    by (simp add: demo_home)
  have fp: "full_path ?readme = ''/home/u/readme.txt''"
    by (simp add: demo_home)
  have tg: "rename_target ?s2 ''notes.txt'' = ''/home/u/notes.txt''"
    by (simp add: demo_home rename_target_def str_defs)
  have w: "world ?s2 = demo_tree"
    by (simp add: demo_home)
  have plain: "CHR ''/'' \<notin> set ''notes.txt'' \<and> CHR ''/'' \<notin> set (name ?readme) \<and>
      full_path ?readme = path_join (current_path ?s2) (name ?readme)"
    by (simp add: demo_home str_defs)
  have other: "name ?readme \<noteq> ''..''"
    by (simp add: demo_home)
  from rename_file_same_directory [OF sel0, where sy = demo_sys and new_name = "''x''"]
  have 0: "rename_file demo_sys ''x'' ?s0 = Inr ?s0"
    by (simp add: parent_entry_def)
  from rename_file_same_directory [OF sel2, where sy = demo_sys and new_name = "''notes.txt''"] plain
  have 1: "dirname (rename_target ?s2 ''notes.txt'') = dirname (full_path ?readme)"
    by blast
  from rename_file_same_directory [OF sel2, where sy = demo_sys and new_name = "''notes.txt''"] other
  have "\<exists>st1. rename_file demo_sys ''notes.txt'' ?s2 = Inr st1 \<and>
      world st1 =
        snd (os_rename demo_sys (world ?s2) (full_path ?readme) (rename_target ?s2 ''notes.txt''))"
    by blast
  then have 2: "\<exists>st1. rename_file demo_sys ''notes.txt'' ?s2 = Inr st1 \<and>
      world st1 = snd (os_rename demo_sys demo_tree ''/home/u/readme.txt'' ''/home/u/notes.txt'')"
    unfolding w fp tg .
  show ?thesis
  proof (intro conjI)
    show "py_get (files ?s0) (selected_idx ?s0) = Some (parent_entry ''/home/u'')" by (rule sel0)
    show "rename_file demo_sys ''x'' ?s0 = Inr ?s0" by (rule 0)
    show "py_get (files ?s2) (selected_idx ?s2) = Some ?readme" by (rule sel2)
    show "name ?readme = ''readme.txt''" by (rule nm)
    show "full_path ?readme = ''/home/u/readme.txt''" by (rule fp)
    show "rename_target ?s2 ''notes.txt'' = ''/home/u/notes.txt''" by (rule tg)
    show "dirname (rename_target ?s2 ''notes.txt'') = dirname (full_path ?readme)" by (rule 1)
    show "\<exists>st1. rename_file demo_sys ''notes.txt'' ?s2 = Inr st1 \<and>
      world st1 = snd (os_rename demo_sys demo_tree ''/home/u/readme.txt'' ''/home/u/notes.txt'')"
      by (rule 2)
  qed
qed

section \<open>Moving the selection\<close>





end
